theory Spec2Isabelle
  imports Main "HOL-Library.Word"
begin

unbundle bit_operations_syntax

section \<open>The serial port the driver reads from and writes to\<close>

text \<open>
  The driver talks to a \<^verbatim>\<open>*serial.Port\<close> of the package github.com/tarm/serial, which is
  not part of the repository. Its three operations the driver calls are modelled on an
  explicit port state:
  \<^item> \<open>buffered\<close>: the bytes the operating system has received and the driver has not read;
  \<^item> \<open>incoming\<close>: what the line delivers after that, in order: a batch of bytes, or a
    failure of the device; when nothing is left the read times out, which the port
    reports as the error EOF;
  \<^item> \<open>written\<close>: the byte slices handed to \<^verbatim>\<open>Write\<close> so far, oldest first;
  \<^item> \<open>wresults\<close>: the error (if any) that each coming call of \<^verbatim>\<open>Write\<close> returns; a call
    beyond the list succeeds.

  \<^verbatim>\<open>Read(buf)\<close> has the contract of an \<^verbatim>\<open>io.Reader\<close>: it copies at most \<^verbatim>\<open>len(buf)\<close> bytes
  and returns how many, so a read may deliver fewer bytes than asked for and still report
  no error.
\<close>

type_synonym byte = "8 word"

datatype error = Error string

definition EOF :: error where
  "EOF = Error ''EOF''"

datatype arrival = Bytes "byte list" | Fault error

record port =
  buffered :: "byte list"
  incoming :: "arrival list"
  written :: "byte list list"
  wresults :: "error option list"

text \<open>\<^verbatim>\<open>port.Read(buf)\<close> with \<^verbatim>\<open>len(buf) = k\<close>: the bytes copied into the front of \<^verbatim>\<open>buf\<close>
  (their number is the count \<^verbatim>\<open>n\<close> that Go returns), the error, and the port afterwards.\<close>

definition port_Read :: "port \<Rightarrow> nat \<Rightarrow> (byte list \<times> error option) \<times> port" where
  "port_Read p k =
     (if buffered p \<noteq> [] then
        ((take k (buffered p), None), p\<lparr>buffered := drop k (buffered p)\<rparr>)
      else
        (case incoming p of
           [] \<Rightarrow> (([], Some EOF), p)
         | Fault e # rest \<Rightarrow> (([], Some e), p\<lparr>incoming := rest\<rparr>)
         | Bytes bs # rest \<Rightarrow>
             ((take k bs, None), p\<lparr>buffered := drop k bs, incoming := rest\<rparr>)))"

text \<open>\<^verbatim>\<open>port.Flush()\<close> discards the data received but not read.\<close>

definition port_Flush :: "port \<Rightarrow> port" where
  "port_Flush p = p\<lparr>buffered := []\<rparr>"

text \<open>\<^verbatim>\<open>port.Write(b)\<close>: the error it returns and the port afterwards.\<close>

definition port_Write :: "port \<Rightarrow> byte list \<Rightarrow> error option \<times> port" where
  "port_Write p b =
     (case wresults p of
        [] \<Rightarrow> (None, p\<lparr>written := written p @ [b]\<rparr>)
      | r # rs \<Rightarrow> (r, p\<lparr>written := written p @ [b], wresults := rs\<rparr>))"

text \<open>
  Every read of the driver has the same shape,
  \<^verbatim>\<open>buf := make([]byte, k); _, err := ld2451.port.Read(buf); if err != nil { ... }\<close>:
  the buffer starts as \<open>k\<close> zero bytes, the read overwrites its front, and the count is
  thrown away. \<open>Read_buf\<close> is that step: the error, or the buffer as the driver sees it.
\<close>

definition Read_buf :: "port \<Rightarrow> nat \<Rightarrow> (error + byte list) \<times> port" where
  "Read_buf p k =
     (case port_Read p k of
        ((got, Some err), p') \<Rightarrow> (Inl err, p')
      | ((got, None), p') \<Rightarrow> (Inr (got @ replicate (k - length got) 0), p'))"

text \<open>A port on which the bytes \<open>bs\<close> have all arrived, and nothing follows them.\<close>

definition port_of :: "byte list \<Rightarrow> port" where
  "port_of bs = \<lparr>buffered = bs, incoming = [], written = [], wresults = []\<rparr>"

section \<open>Data model\<close>

type_synonym Direction = int

definition DirectionAway :: Direction where
  "DirectionAway = 0"

definition DirectionToward :: Direction where
  "DirectionToward = 1"

definition Direction_String :: "Direction \<Rightarrow> string" where
  "Direction_String d =
     (if d = DirectionAway then ''Away''
      else if d = DirectionToward then ''Toward''
      else ''Unknown'')"

text \<open>\<^verbatim>\<open>Target\<close> of src/LD2451.go, which carries the alarm state of each target.\<close>

record Target_B =
  Alarm :: bool
  Angle :: int
  Distance :: int
  Direction :: Direction
  Speed :: int
  SNR :: int

definition frameheader :: "byte list" where
  "frameheader = [0xf4, 0xf3, 0xf2, 0xf1]"

text \<open>How the decode loop ends: it sends an error on the error channel and returns, or an
  index runs past the end of the payload slice and the Go runtime panics.\<close>

datatype outcome = Failed error | Panic

text \<open>\<^verbatim>\<open>buf[i]\<close> on a Go slice: the byte, or \<open>None\<close> for the panic "index out of range".\<close>

definition index :: "byte list \<Rightarrow> nat \<Rightarrow> byte option" where
  "index buf i = (if i < length buf then Some (buf ! i) else None)"

text \<open>\<^verbatim>\<open>buf[i:]\<close> on a Go slice: \<open>None\<close> for the panic "slice bounds out of range".\<close>

definition slice_from :: "byte list \<Rightarrow> nat \<Rightarrow> byte list option" where
  "slice_from buf i = (if i \<le> length buf then Some (drop i buf) else None)"

section \<open>The decode loop of src/LD2451.go\<close>

text \<open>The body of \<^verbatim>\<open>for i := 0; i < numTargets; i++\<close> up to the send: the target read from
  the front of \<open>buf\<close>, or \<open>None\<close> when one of the six index expressions panics.\<close>

definition target_B :: "byte list \<Rightarrow> Target_B option" where
  "target_B buf =
     (case index buf 0 of None \<Rightarrow> None | Some b0 \<Rightarrow>
      case index buf 1 of None \<Rightarrow> None | Some b1 \<Rightarrow>
      case index buf 2 of None \<Rightarrow> None | Some b2 \<Rightarrow>
      case index buf 3 of None \<Rightarrow> None | Some b3 \<Rightarrow>
      case index buf 4 of None \<Rightarrow> None | Some b4 \<Rightarrow>
      case index buf 5 of None \<Rightarrow> None | Some b5 \<Rightarrow>
        Some \<lparr>Alarm = (uint b0 = 1), Angle = uint b1 - 0x80, Distance = uint b2,
              Direction = uint b3, Speed = uint b4, SNR = uint b5\<rparr>)"

text \<open>The target loop, by the number of rounds still to run: the targets sent on the target
  channel, in order, and whether the loop ran to its end (\<open>False\<close>: it panicked).\<close>

fun targets_B :: "nat \<Rightarrow> byte list \<Rightarrow> Target_B list \<times> bool" where
  "targets_B 0 buf = ([], True)"
| "targets_B (Suc n) buf =
     (case target_B buf of
        None \<Rightarrow> ([], False)
      | Some target \<Rightarrow>
          (case slice_from buf 6 of
             None \<Rightarrow> ([target], False)
           | Some buf' \<Rightarrow>
               (case targets_B n buf' of (ts, ok) \<Rightarrow> (target # ts, ok))))"

text \<open>One pass through the body of the endless \<^verbatim>\<open>for\<close> of \<^verbatim>\<open>read\<close>: the targets it sends, and
  either how the loop ends there or the port with which the next pass starts.\<close>

definition read_body_B :: "port \<Rightarrow> Target_B list \<times> (outcome + port)" where
  "read_body_B p =
     (case Read_buf p 1 of
        (Inl err, _) \<Rightarrow> ([], Inl (Failed err))
      | (Inr buf, p1) \<Rightarrow>
          if buf ! 0 \<noteq> 0xf4 then ([], Inr p1)
          else
            (case Read_buf p1 3 of
               (Inl err, _) \<Rightarrow> ([], Inl (Failed err))
             | (Inr buf, p2) \<Rightarrow>
                 if buf = tl frameheader then
                   (case Read_buf p2 2 of
                      (Inl err, _) \<Rightarrow> ([], Inl (Failed err))
                    | (Inr buf, p3) \<Rightarrow>
                        let frameLength = push_bit 8 (unat (buf ! 1)) OR unat (buf ! 0) in
                        if frameLength = 0 then
                          (case Read_buf p3 4 of
                             (Inl err, _) \<Rightarrow> ([], Inl (Failed err))
                           | (Inr buf, p4) \<Rightarrow> ([], Inr p4))
                        else
                          (case Read_buf p3 frameLength of
                             (Inl err, _) \<Rightarrow> ([], Inl (Failed err))
                           | (Inr buf, p4) \<Rightarrow>
                               let numTargets = unat (buf ! 0) in
                               (case targets_B numTargets (drop 1 buf) of
                                  (ts, False) \<Rightarrow> (ts, Inl Panic)
                                | (ts, True) \<Rightarrow> (ts, Inr (port_Flush p4)))))
                 else ([], Inr p2)))"

text \<open>What is left for the loop to consume; every pass that goes on has read at least one byte
  or used up one arrival.\<close>

fun arrival_size :: "arrival \<Rightarrow> nat" where
  "arrival_size (Bytes bs) = Suc (length bs)"
| "arrival_size (Fault e) = 1"

definition port_size :: "port \<Rightarrow> nat" where
  "port_size p = length (buffered p) + sum_list (map arrival_size (incoming p))"

lemma Read_buf_size_le:
  "Read_buf p k = (Inr buf, p') \<Longrightarrow> port_size p' \<le> port_size p"
  by (auto simp: Read_buf_def port_Read_def port_size_def
      split: if_splits list.splits arrival.splits)

lemma Read_buf_size_less:
  "Read_buf p k = (Inr buf, p') \<Longrightarrow> 0 < k \<Longrightarrow> port_size p' < port_size p"
  by (auto simp: Read_buf_def port_Read_def port_size_def
      split: if_splits list.splits arrival.splits)

lemma port_Flush_size_le: "port_size (port_Flush p) \<le> port_size p"
  by (simp add: port_Flush_def port_size_def)

lemma read_body_B_size:
  assumes "read_body_B p = (ts, Inr p')"
  shows "port_size p' < port_size p"
proof -
  obtain r1 p1 where r1: "Read_buf p 1 = (r1, p1)" by (cases "Read_buf p 1")
  show ?thesis
  proof (cases r1)
    case (Inl e)
    with assms r1 show ?thesis by (simp add: read_body_B_def)
  next
    case (Inr buf)
    with r1 have less: "port_size p1 < port_size p"
      using Read_buf_size_less [of p 1 buf p1] by simp
    have "port_size p' \<le> port_size p1"
      using assms r1 Inr
      by (auto simp: read_body_B_def Let_def
          split: if_splits prod.splits sum.splits bool.splits
          dest!: Read_buf_size_le
          intro: order_trans [OF port_Flush_size_le])
    with less show ?thesis by simp
  qed
qed

text \<open>\<^verbatim>\<open>read\<close>: the targets the goroutine sends on the target channel, in order, and how it
  ends, when every target it sends is received in the end (a send on a full channel waits
  for the receiver).\<close>

function read_B :: "port \<Rightarrow> Target_B list \<times> outcome" where
  "read_B p =
     (case read_body_B p of
        (ts, Inl out) \<Rightarrow> (ts, out)
      | (ts, Inr p') \<Rightarrow> (case read_B p' of (ts', out) \<Rightarrow> (ts @ ts', out)))"
  by pat_completeness auto
termination
  by (relation "measure port_size") (auto dest: read_body_B_size [OF sym])

declare read_B.simps [simp del]

section \<open>The decode loop of src/unnamed/\<^verbatim>\<open>part_000\<close>\<close>

text \<open>\<^verbatim>\<open>Target\<close> of this file has no alarm field: the frame carries one alarm byte, after the
  target count, which the loop skips.\<close>

record Target_A =
  Angle_A :: int
  Distance_A :: int
  Direction_A :: Direction
  Speed_A :: int
  SNR_A :: int

text \<open>The body of the target loop up to the send. The index expressions are
  \<^verbatim>\<open>buf[1]\<close> to \<^verbatim>\<open>buf[5]\<close>; \<^verbatim>\<open>buf[0]\<close> does not occur.\<close>

definition target_A :: "byte list \<Rightarrow> Target_A option" where
  "target_A buf =
     (case index buf 1 of None \<Rightarrow> None | Some b1 \<Rightarrow>
      case index buf 2 of None \<Rightarrow> None | Some b2 \<Rightarrow>
      case index buf 3 of None \<Rightarrow> None | Some b3 \<Rightarrow>
      case index buf 4 of None \<Rightarrow> None | Some b4 \<Rightarrow>
      case index buf 5 of None \<Rightarrow> None | Some b5 \<Rightarrow>
        Some \<lparr>Angle_A = uint b1 - 0x80, Distance_A = uint b2,
              Direction_A = uint b3, Speed_A = uint b4, SNR_A = uint b5\<rparr>)"

fun targets_A :: "nat \<Rightarrow> byte list \<Rightarrow> Target_A list \<times> bool" where
  "targets_A 0 buf = ([], True)"
| "targets_A (Suc n) buf =
     (case target_A buf of
        None \<Rightarrow> ([], False)
      | Some target \<Rightarrow>
          (case slice_from buf 6 of
             None \<Rightarrow> ([target], False)
           | Some buf' \<Rightarrow>
               (case targets_A n buf' of (ts, ok) \<Rightarrow> (target # ts, ok))))"

text \<open>One pass through the body of the endless \<^verbatim>\<open>for\<close>. After the target count the slice
  is cut by \<^verbatim>\<open>buf[2:]\<close>, which panics on a payload of one byte, and after the target loop
  four more bytes are read.\<close>

definition read_body_A :: "port \<Rightarrow> Target_A list \<times> (outcome + port)" where
  "read_body_A p =
     (case Read_buf p 1 of
        (Inl err, _) \<Rightarrow> ([], Inl (Failed err))
      | (Inr buf, p1) \<Rightarrow>
          if buf ! 0 \<noteq> frameheader ! 0 then ([], Inr p1)
          else
            (case Read_buf p1 3 of
               (Inl err, _) \<Rightarrow> ([], Inl (Failed err))
             | (Inr buf, p2) \<Rightarrow>
                 if buf = tl frameheader then
                   (case Read_buf p2 2 of
                      (Inl err, _) \<Rightarrow> ([], Inl (Failed err))
                    | (Inr buf, p3) \<Rightarrow>
                        let frameLength = push_bit 8 (unat (buf ! 1)) OR unat (buf ! 0) in
                        if frameLength = 0 then
                          (case Read_buf p3 4 of
                             (Inl err, _) \<Rightarrow> ([], Inl (Failed err))
                           | (Inr buf, p4) \<Rightarrow> ([], Inr p4))
                        else
                          (case Read_buf p3 frameLength of
                             (Inl err, _) \<Rightarrow> ([], Inl (Failed err))
                           | (Inr buf, p4) \<Rightarrow>
                               let numTargets = unat (buf ! 0) in
                               (case slice_from buf 2 of
                                  None \<Rightarrow> ([], Inl Panic)
                                | Some buf \<Rightarrow>
                                    (case targets_A numTargets buf of
                                       (ts, False) \<Rightarrow> (ts, Inl Panic)
                                     | (ts, True) \<Rightarrow>
                                         (case Read_buf p4 4 of
                                            (Inl err, _) \<Rightarrow> (ts, Inl (Failed err))
                                          | (Inr buf, p5) \<Rightarrow> (ts, Inr p5))))))
                 else ([], Inr p2)))"

lemma read_body_A_size:
  assumes "read_body_A p = (ts, Inr p')"
  shows "port_size p' < port_size p"
proof -
  obtain r1 p1 where r1: "Read_buf p 1 = (r1, p1)" by (cases "Read_buf p 1")
  show ?thesis
  proof (cases r1)
    case (Inl e)
    with assms r1 show ?thesis by (simp add: read_body_A_def)
  next
    case (Inr buf)
    with r1 have less: "port_size p1 < port_size p"
      using Read_buf_size_less [of p 1 buf p1] by simp
    have "port_size p' \<le> port_size p1"
      using assms r1 Inr
      by (auto simp: read_body_A_def Let_def
          split: if_splits prod.splits sum.splits bool.splits option.splits
          dest!: Read_buf_size_le)
    with less show ?thesis by simp
  qed
qed

function read_A :: "port \<Rightarrow> Target_A list \<times> outcome" where
  "read_A p =
     (case read_body_A p of
        (ts, Inl out) \<Rightarrow> (ts, out)
      | (ts, Inr p') \<Rightarrow> (case read_A p' of (ts', out) \<Rightarrow> (ts @ ts', out)))"
  by pat_completeness auto
termination
  by (relation "measure port_size") (auto dest: read_body_A_size [OF sym])

declare read_A.simps [simp del]

section \<open>The command transaction of src/unnamed/\<^verbatim>\<open>part_000\<close>\<close>

definition command_failed :: error where
  "command_failed = Error ''failed to send command to the LD2451''"

text \<open>\<^verbatim>\<open>sendCommand\<close>: the error it sends on the error channel before it returns (\<open>None\<close> when
  it returns at its end, having sent nothing) and the port afterwards. The results of the
  two calls of \<^verbatim>\<open>Write\<close> are dropped, as in the source, and \<open>command\<close> occurs nowhere in the
  body. The buffers have 17 and 13 bytes, so none of the slice expressions can panic.\<close>

definition sendCommand :: "port \<Rightarrow> byte list \<Rightarrow> error option \<times> port" where
  "sendCommand p command =
     (case port_Write p [0xfd, 0xfc, 0xfb, 0xfa, 0x04, 0x00, 0xff, 0x00, 0x01, 0x00,
                         0x04, 0x03, 0x02, 0x01] of
        (_, p1) \<Rightarrow>
     (case Read_buf p1 1 of
        (Inl err, p2) \<Rightarrow> (Some err, p2)
      | (Inr buf, p2) \<Rightarrow>
          if buf ! 0 \<noteq> 0xfd then (Some command_failed, p2)
          else
     (case Read_buf p2 17 of
        (Inl err, p3) \<Rightarrow> (Some err, p3)
      | (Inr buf, p3) \<Rightarrow>
          let status = drop 7 buf;
              status = take (length status - 8) status;
              endFrame = drop (length buf - 4) buf
          in
          if endFrame \<noteq> [0x04, 0x03, 0x02, 0x01] \<or> status \<noteq> [0, 0]
          then (Some command_failed, p3)
          else
     (case port_Write p3 [0xfd, 0xfc, 0xfb, 0xfa, 0x02, 0x00, 0xfe, 0x00,
                          0x04, 0x03, 0x02, 0x01] of
        (_, p4) \<Rightarrow>
     (case Read_buf p4 1 of
        (Inl err, p5) \<Rightarrow> (Some err, p5)
      | (Inr buf, p5) \<Rightarrow>
          if buf ! 0 \<noteq> 0xfd then (Some command_failed, p5)
          else
     (case Read_buf p5 13 of
        (Inl err, p6) \<Rightarrow> (Some err, p6)
      | (Inr buf, p6) \<Rightarrow>
          let status = drop 7 buf;
              status = take (length status - 4) status;
              endFrame = drop (length buf - 4) buf
          in
          if endFrame \<noteq> [0x04, 0x03, 0x02, 0x01] \<or> status \<noteq> [0, 0]
          then (Some command_failed, p6)
          else (None, p6)))))))"

section \<open>The target stream of src/LD2451.go\<close>

record Config =
  SerialPort :: string
  BaudRate :: int
  TargetBufferSize :: int

text \<open>
  The state of an open driver. \<^verbatim>\<open>Open\<close> starts \<^verbatim>\<open>read\<close> as a goroutine, the only user of the
  port from then on, so what it will send is fixed by the port: \<open>read_B\<close> of it.
  \<^item> \<open>targets\<close>: the targets waiting in the buffered channel \<^verbatim>\<open>targets\<close>, oldest first;
  \<^item> \<open>reader\<close>: the goroutine. \<open>Reading todo out\<close>: it is running, has the targets \<open>todo\<close>
    yet to send, and then ends by \<open>out\<close>; with \<open>todo = []\<close> and \<open>out = Failed err\<close> it stands
    in \<^verbatim>\<open>ld2451.errors <- err\<close>, which blocks until the error is received, the channel
    \<^verbatim>\<open>errors\<close> being unbuffered. \<open>Returned\<close>: the error has been received and \<^verbatim>\<open>read\<close> has
    returned. Nothing else sends on either channel, and neither is ever closed.
\<close>

datatype reader = Reading "Target_B list" outcome | Returned

record LD2451 =
  config :: Config
  targets :: "Target_B list"
  reader :: reader

text \<open>\<^verbatim>\<open>Open\<close>, given what \<^verbatim>\<open>serial.OpenPort\<close> returns and given \<open>limit\<close>, the largest size
  with which \<^verbatim>\<open>make(chan Target, n)\<close> returns on the machine. \<open>None\<close>: the program ends inside
  \<^verbatim>\<open>make\<close>, which panics on a negative size and on a size out of range for the runtime,
  and cannot allocate a channel larger than the memory.\<close>

definition Open :: "int \<Rightarrow> Config \<Rightarrow> error + port \<Rightarrow> (error + LD2451) option" where
  "Open limit cfg opened =
     (case opened of
        Inl err \<Rightarrow> Some (Inl err)
      | Inr port \<Rightarrow>
          if TargetBufferSize cfg < 0 \<or> limit < TargetBufferSize cfg then None
          else
            (case read_B port of
               (todo, out) \<Rightarrow>
                 Some (Inr \<lparr>config = cfg, targets = [], reader = Reading todo out\<rparr>)))"

text \<open>The goroutine sends targets for as long as the channel has room.\<close>

definition advance :: "LD2451 \<Rightarrow> LD2451" where
  "advance s =
     (case reader s of
        Reading todo out \<Rightarrow>
          let room = nat (TargetBufferSize (config s)) - length (targets s)
          in s\<lparr>targets := targets s @ take room todo, reader := Reading (drop room todo) out\<rparr>
      | Returned \<Rightarrow> s)"

text \<open>
  \<^verbatim>\<open>ReadTarget\<close> is one \<^verbatim>\<open>select\<close> over a receive from \<^verbatim>\<open>targets\<close> and a receive from
  \<^verbatim>\<open>errors\<close>. The result lists every return the call can make, with the state after it:
  \<open>Inr target\<close> for \<^verbatim>\<open>(target, nil)\<close>, \<open>Inl err\<close> for \<^verbatim>\<open>(Target{}, err)\<close>. A target can be
  received when one waits in the channel, or when the goroutine stands in a send on a
  channel without buffer; the error can be received when the goroutine stands in its send.
  When both can, \<^verbatim>\<open>select\<close> picks either. The empty list means that the call never
  returns: it blocks and nothing will wake it, or the goroutine has panicked, which ends
  the program.
\<close>

definition ReadTarget :: "LD2451 \<Rightarrow> ((error + Target_B) \<times> LD2451) list" where
  "ReadTarget s0 =
     (let s = advance s0 in
        (case targets s of
           target # rest \<Rightarrow> [(Inr target, s\<lparr>targets := rest\<rparr>)]
         | [] \<Rightarrow>
             (case reader s of
                Reading (target # todo) out \<Rightarrow> [(Inr target, s\<lparr>reader := Reading todo out\<rparr>)]
              | _ \<Rightarrow> []))
        @
        (case reader s of
           Reading [] (Failed err) \<Rightarrow> [(Inl err, s\<lparr>reader := Returned\<rparr>)]
         | _ \<Rightarrow> []))"

text \<open>The states in which \<open>n\<close> calls of \<^verbatim>\<open>ReadTarget\<close>, one after the other, can leave the
  driver.\<close>

fun calls :: "nat \<Rightarrow> LD2451 \<Rightarrow> LD2451 list" where
  "calls 0 s = [s]"
| "calls (Suc n) s = concat (map (\<lambda>(r, s'). calls n s') (ReadTarget s))"

section \<open>Lemmas: reads that find their bytes in the buffer, and the loops\<close>

lemma Read_buf_buffered:
  "0 < k \<Longrightarrow> k \<le> length bs \<Longrightarrow>
   Read_buf (p\<lparr>buffered := bs\<rparr>) k = (Inr (take k bs), p\<lparr>buffered := drop k bs\<rparr>)"
  by (auto simp: Read_buf_def port_Read_def)

lemma read_B_step:
  "read_body_B p = ([], Inr p') \<Longrightarrow> read_B p = read_B p'"
  by (subst read_B.simps) simp

lemma read_A_step:
  "read_body_A p = ([], Inr p') \<Longrightarrow> read_A p = read_A p'"
  by (subst read_A.simps) simp

lemma read_B_stop:
  "read_body_B p = (ts, Inl out) \<Longrightarrow> read_B p = (ts, out)"
  by (subst read_B.simps) simp

lemma read_A_stop:
  "read_body_A p = (ts, Inl out) \<Longrightarrow> read_A p = (ts, out)"
  by (subst read_A.simps) simp

lemma read_B_cong:
  "read_body_B p = read_body_B q \<Longrightarrow> read_B p = read_B q"
  by (subst read_B.simps, subst (2) read_B.simps) simp

lemma read_A_cong:
  "read_body_A p = read_body_A q \<Longrightarrow> read_A p = read_A q"
  by (subst read_A.simps, subst (2) read_A.simps) simp

lemma target_B_short: "length buf < 6 \<Longrightarrow> target_B buf = None"
  by (auto simp: target_B_def index_def split: option.splits)

lemma target_B_full:
  "6 \<le> length buf \<Longrightarrow>
   target_B buf = Some \<lparr>Alarm = (uint (buf ! 0) = 1), Angle = uint (buf ! 1) - 0x80,
     Distance = uint (buf ! 2), Direction = uint (buf ! 3), Speed = uint (buf ! 4),
     SNR = uint (buf ! 5)\<rparr>"
  by (auto simp: target_B_def index_def)

text \<open>The target loop made explicit: it sends the targets of the first records of \<open>buf\<close>, in
  order, as many as there are rounds and complete records, and it runs to its end when
  \<open>buf\<close> holds a record for every round.\<close>

lemma targets_B_explicit:
  "targets_B n buf =
     (map (\<lambda>i. \<lparr>Alarm = (uint (buf ! (6 * i)) = 1), Angle = uint (buf ! (6 * i + 1)) - 0x80,
                  Distance = uint (buf ! (6 * i + 2)), Direction = uint (buf ! (6 * i + 3)),
                  Speed = uint (buf ! (6 * i + 4)), SNR = uint (buf ! (6 * i + 5))\<rparr>)
          [0..<min n (length buf div 6)],
      6 * n \<le> length buf)"
proof (induction n arbitrary: buf)
  case 0
  then show ?case by simp
next
  case (Suc n)
  show ?case
  proof (cases "length buf < 6")
    case True
    then show ?thesis by (simp add: target_B_short)
  next
    case False
    then have len: "6 \<le> length buf" by simp
    then have d: "length buf div 6 = Suc (length (drop 6 buf) div 6)"
      by (simp add: le_div_geq)
    have m: "min (Suc n) (Suc k) = Suc (min n k)" for k by simp
    show ?thesis
      using len
      by (auto simp: target_B_full slice_from_def Suc.IH [of "drop 6 buf"] d m map_upt_Suc
          add.commute add.left_commute numeral_2_eq_2 simp del: upt_Suc)
  qed
qed

lemma target_A_short: "length buf < 6 \<Longrightarrow> target_A buf = None"
  by (auto simp: target_A_def index_def split: option.splits)

lemma target_A_full:
  "6 \<le> length buf \<Longrightarrow>
   target_A buf = Some \<lparr>Angle_A = uint (buf ! 1) - 0x80,
     Distance_A = uint (buf ! 2), Direction_A = uint (buf ! 3), Speed_A = uint (buf ! 4),
     SNR_A = uint (buf ! 5)\<rparr>"
  by (auto simp: target_A_def index_def)

lemma targets_A_explicit:
  "targets_A n buf =
     (map (\<lambda>i. \<lparr>Angle_A = uint (buf ! (6 * i + 1)) - 0x80,
                  Distance_A = uint (buf ! (6 * i + 2)), Direction_A = uint (buf ! (6 * i + 3)),
                  Speed_A = uint (buf ! (6 * i + 4)), SNR_A = uint (buf ! (6 * i + 5))\<rparr>)
          [0..<min n (length buf div 6)],
      6 * n \<le> length buf)"
proof (induction n arbitrary: buf)
  case 0
  then show ?case by simp
next
  case (Suc n)
  show ?case
  proof (cases "length buf < 6")
    case True
    then show ?thesis by (simp add: target_A_short)
  next
    case False
    then have len: "6 \<le> length buf" by simp
    then have d: "length buf div 6 = Suc (length (drop 6 buf) div 6)"
      by (simp add: le_div_geq)
    have m: "min (Suc n) (Suc k) = Suc (min n k)" for k by simp
    show ?thesis
      using len
      by (auto simp: target_A_full slice_from_def Suc.IH [of "drop 6 buf"] d m map_upt_Suc
          add.commute add.left_commute numeral_2_eq_2 simp del: upt_Suc)
  qed
qed

lemma targets_A_agree:
  "length buf' = length buf \<Longrightarrow> \<forall>j<length buf. j mod 6 \<noteq> 0 \<longrightarrow> buf' ! j = buf ! j \<Longrightarrow>
   targets_A n buf' = targets_A n buf"
proof (induction n arbitrary: buf buf')
  case 0
  then show ?case by simp
next
  case (Suc n)
  show ?case
  proof (cases "length buf < 6")
    case True
    with Suc.prems show ?thesis by (simp add: target_A_short)
  next
    case False
    then have len: "6 \<le> length buf" "6 \<le> length buf'" using Suc.prems by simp_all
    have t: "target_A buf' = target_A buf"
      using len Suc.prems(2) by (simp add: target_A_full)
    have "targets_A n (drop 6 buf') = targets_A n (drop 6 buf)"
    proof (rule Suc.IH)
      show "length (drop 6 buf') = length (drop 6 buf)" using Suc.prems by simp
      show "\<forall>j<length (drop 6 buf). j mod 6 \<noteq> 0 \<longrightarrow> drop 6 buf' ! j = drop 6 buf ! j"
      proof (intro allI impI)
        fix j assume j: "j < length (drop 6 buf)" "j mod 6 \<noteq> 0"
        then have "6 + j < length buf" "(6 + j) mod 6 \<noteq> 0" by simp_all
        with Suc.prems(2) have "buf' ! (6 + j) = buf ! (6 + j)" by blast
        with len show "drop 6 buf' ! j = drop 6 buf ! j" by simp
      qed
    qed
    with t len show ?thesis by (simp add: slice_from_def split: option.splits)
  qed
qed

section \<open>A whole frame in the buffer\<close>

lemma body_B_frame:
  assumes "push_bit 8 (unat hi) OR unat lo = length payload" and "payload \<noteq> []"
  shows "read_body_B (p\<lparr>buffered := 0xf4 # 0xf3 # 0xf2 # 0xf1 # lo # hi # payload @ rest\<rparr>) =
     (case targets_B (unat (payload ! 0)) (drop 1 payload) of
        (ts, False) \<Rightarrow> (ts, Inl Panic)
      | (ts, True) \<Rightarrow> (ts, Inr (p\<lparr>buffered := []\<rparr>)))"
  using assms
  by (simp add: read_body_B_def Read_buf_buffered frameheader_def port_Flush_def nth_append
      split: prod.splits bool.splits)

lemma body_A_frame:
  assumes "push_bit 8 (unat hi) OR unat lo = length payload" and "payload \<noteq> []"
  shows "read_body_A (p\<lparr>buffered := 0xf4 # 0xf3 # 0xf2 # 0xf1 # lo # hi # payload @ rest\<rparr>) =
     (case slice_from payload 2 of
        None \<Rightarrow> ([], Inl Panic)
      | Some buf \<Rightarrow>
          (case targets_A (unat (payload ! 0)) buf of
             (ts, False) \<Rightarrow> (ts, Inl Panic)
           | (ts, True) \<Rightarrow>
               (case Read_buf (p\<lparr>buffered := rest\<rparr>) 4 of
                  (Inl err, _) \<Rightarrow> (ts, Inl (Failed err))
                | (Inr buf, p5) \<Rightarrow> (ts, Inr p5))))"
  using assms
  by (simp add: read_body_A_def Read_buf_buffered frameheader_def nth_append
      split: prod.splits bool.splits)

section \<open>Lemmas: the port log, the command transaction and the target stream\<close>

lemma Read_buf_length: "Read_buf p k = (Inr buf, p') \<Longrightarrow> length buf = k"
  by (auto simp: Read_buf_def port_Read_def split: if_splits list.splits arrival.splits)

lemma Read_buf_written: "Read_buf p k = (r, p') \<Longrightarrow> written p' = written p"
  by (auto simp: Read_buf_def port_Read_def split: if_splits list.splits arrival.splits)

lemma port_Write_written: "port_Write p b = (r, p') \<Longrightarrow> written p' = written p @ [b]"
  by (auto simp: port_Write_def split: list.splits)

lemma ReadTarget_Returned:
  "reader s = Returned \<Longrightarrow>
   ReadTarget s = (case targets s of [] \<Rightarrow> [] | target # rest \<Rightarrow> [(Inr target, s\<lparr>targets := rest\<rparr>)])"
  by (simp add: ReadTarget_def advance_def split: list.splits)

lemma ReadTarget_error_Returned:
  "(Inl err, s') \<in> set (ReadTarget s) \<Longrightarrow> reader s' = Returned"
  by (auto simp: ReadTarget_def Let_def split: list.splits reader.splits outcome.splits)

lemma calls_Returned:
  "reader s = Returned \<Longrightarrow> s' \<in> set (calls n s) \<Longrightarrow> reader s' = Returned"
proof (induction n arbitrary: s)
  case 0
  then show ?case by simp
next
  case (Suc n)
  show ?case
  proof (cases "targets s")
    case Nil
    with Suc.prems show ?thesis by (simp add: ReadTarget_Returned)
  next
    case (Cons target rest)
    with Suc.prems have "s' \<in> set (calls n (s\<lparr>targets := rest\<rparr>))"
      by (simp add: ReadTarget_Returned)
    moreover from Suc.prems have "reader (s\<lparr>targets := rest\<rparr>) = Returned" by simp
    ultimately show ?thesis by (rule Suc.IH [rotated])
  qed
qed

section \<open>Lemmas: the read steps of one pass\<close>

lemma port_Read_length: "port_Read p k = ((got, e), p') \<Longrightarrow> length got \<le> k"
  by (auto simp: port_Read_def split: if_splits list.splits arrival.splits)

lemma Read_buf_no_error:
  "port_Read p k = ((got, None), p') \<Longrightarrow>
   Read_buf p k = (Inr (got @ replicate (k - length got) 0), p')"
  by (simp add: Read_buf_def)

lemma Read_buf_some_buffered:
  "bs \<noteq> [] \<Longrightarrow>
   Read_buf (p\<lparr>buffered := bs\<rparr>) k
     = (Inr (take k bs @ replicate (k - length bs) 0), p\<lparr>buffered := drop k bs\<rparr>)"
  by (auto simp: Read_buf_def port_Read_def)

text \<open>One pass that finds a header and a length other than zero, in terms of what its reads
  return, on any port.\<close>

lemma body_B_steps:
  assumes "Read_buf p 1 = (Inr [0xf4], p1)" and "Read_buf p1 3 = (Inr [0xf3, 0xf2, 0xf1], p2)"
    and "Read_buf p2 2 = (Inr [lo, hi], p3)" and "push_bit 8 (unat hi) OR unat lo \<noteq> 0"
    and "Read_buf p3 (push_bit 8 (unat hi) OR unat lo) = (Inr buf, p4)"
  shows "read_body_B p =
     (case targets_B (unat (buf ! 0)) (drop 1 buf) of
        (ts, False) \<Rightarrow> (ts, Inl Panic)
      | (ts, True) \<Rightarrow> (ts, Inr (port_Flush p4)))"
  using assms by (simp add: read_body_B_def frameheader_def)

lemma body_A_steps:
  assumes "Read_buf p 1 = (Inr [0xf4], p1)" and "Read_buf p1 3 = (Inr [0xf3, 0xf2, 0xf1], p2)"
    and "Read_buf p2 2 = (Inr [lo, hi], p3)" and "push_bit 8 (unat hi) OR unat lo \<noteq> 0"
    and "Read_buf p3 (push_bit 8 (unat hi) OR unat lo) = (Inr buf, p4)"
  shows "read_body_A p =
     (case slice_from buf 2 of
        None \<Rightarrow> ([], Inl Panic)
      | Some body \<Rightarrow>
          (case targets_A (unat (buf ! 0)) body of
             (ts, False) \<Rightarrow> (ts, Inl Panic)
           | (ts, True) \<Rightarrow>
               (case Read_buf p4 4 of
                  (Inl err, _) \<Rightarrow> (ts, Inl (Failed err))
                | (Inr footer, p5) \<Rightarrow> (ts, Inr p5))))"
  using assms by (simp add: read_body_A_def frameheader_def)

lemma targets_A_record_byte_0:
  assumes "length buf' = length buf"
    and "\<forall>j<length buf. j mod 6 \<noteq> 2 \<longrightarrow> buf' ! j = buf ! j"
  shows "targets_A n (drop 2 buf') = targets_A n (drop 2 buf)"
proof (rule targets_A_agree)
  show "length (drop 2 buf') = length (drop 2 buf)"
    using assms(1) by simp
  show "\<forall>j<length (drop 2 buf). j mod 6 \<noteq> 0 \<longrightarrow> drop 2 buf' ! j = drop 2 buf ! j"
  proof (intro allI impI)
    fix j assume j: "j < length (drop 2 buf)" "j mod 6 \<noteq> 0"
    then have "2 + j < length buf" by simp
    moreover from j have "(2 + j) mod 6 \<noteq> 2"
      by presburger
    ultimately have "buf' ! (2 + j) = buf ! (2 + j)"
      using assms(2) by blast
    with j assms(1) show "drop 2 buf' ! j = drop 2 buf ! j" by simp
  qed
qed

section \<open>The claims\<close>

subsection \<open>C1: the frame of one target\<close>

text \<open>
  C1. The byte stream F4 F3 F2 F1 07 00 01 00 90 0A 01 14 1E F8 F7 F6 F5, one frame with
  frameLength 7 and numTargets 1, is to decode to exactly one target with angle 16,
  distance 10, direction Toward, speed 20 and SNR 30.
  The loop of src/LD2451.go does so (and sets Alarm to false). The loop of
  src/unnamed/\<^verbatim>\<open>part_000\<close> cuts the payload by \<^verbatim>\<open>buf[2:]\<close>, which leaves the five bytes
  90 0A 01 14 1E, and then evaluates \<^verbatim>\<open>buf[1]\<close> to \<^verbatim>\<open>buf[5]\<close>: the last index is out of
  range, the goroutine panics, and no target is sent.
\<close>

theorem C1_frame_of_one_target:
  "read_A (port_of [0xF4, 0xF3, 0xF2, 0xF1, 0x07, 0x00, 0x01, 0x00, 0x90, 0x0A, 0x01, 0x14,
                    0x1E, 0xF8, 0xF7, 0xF6, 0xF5]) = ([], Panic)
   \<and> read_B (port_of [0xF4, 0xF3, 0xF2, 0xF1, 0x07, 0x00, 0x01, 0x00, 0x90, 0x0A, 0x01, 0x14,
                      0x1E, 0xF8, 0xF7, 0xF6, 0xF5])
       = ([\<lparr>Alarm = False, Angle = 16, Distance = 10, Direction = DirectionToward,
             Speed = 20, SNR = 30\<rparr>], Failed EOF)"
  by code_simp

subsection \<open>C2: a payload too short for its target count\<close>

text \<open>
  C2, as the claim states it: a frame whose payload holds fewer than 6 * numTargets bytes
  after the header fields fails with a framing error, sends no target, and the loop goes
  on to the next header. It does not hold. In each stream below the first frame announces
  two targets and holds the bytes of one record only; a frame that decodes follows it. Both
  loops send the target of the first record and then panic on an index out of range, so the
  second frame is never reached.
\<close>

theorem C2_short_payload_counterexample:
  "read_B (port_of ([0xF4, 0xF3, 0xF2, 0xF1, 0x08, 0x00, 0x02, 0x00, 0x90, 0x0A, 0x01, 0x14,
                     0x1E, 0x05, 0xF8, 0xF7, 0xF6, 0xF5]
                    @ [0xF4, 0xF3, 0xF2, 0xF1, 0x07, 0x00, 0x01, 0x01, 0x85, 0x03, 0x00, 0x28,
                       0x0C, 0xF8, 0xF7, 0xF6, 0xF5]))
     = ([\<lparr>Alarm = False, Angle = 16, Distance = 10, Direction = 1, Speed = 20, SNR = 30\<rparr>],
        Panic)
   \<and> read_A (port_of ([0xF4, 0xF3, 0xF2, 0xF1, 0x08, 0x00, 0x02, 0x00, 0x90, 0x0A, 0x01, 0x14,
                       0x1E, 0x05, 0xF8, 0xF7, 0xF6, 0xF5]
                      @ [0xF4, 0xF3, 0xF2, 0xF1, 0x0E, 0x00, 0x02, 0x01, 0x00, 0x85, 0x03, 0x00,
                         0x28, 0x0C, 0x00, 0x85, 0x03, 0x00, 0x28, 0x0C, 0xF8, 0xF7, 0xF6, 0xF5]))
     = ([\<lparr>Angle_A = - 118, Distance_A = 1, Direction_A = 20, Speed_A = 30, SNR_A = 5\<rparr>],
        Panic)"
  by code_simp

text \<open>
  C2, amended. Take a pass of the loop that has read a header and a length field
  frameLength other than 0, and whose payload read reported no error; \<open>buf\<close> is the payload
  buffer, frameLength bytes long: the bytes that the read delivered and zero bytes in
  the place of those it did not. When \<open>buf\<close> holds fewer than 6 * numTargets bytes after the
  header fields (the target count in src/LD2451.go; the target count and the alarm byte in
  src/unnamed/\<^verbatim>\<open>part_000\<close>), the loop sends the targets of the complete six-byte records of
  \<open>buf\<close>, each with the fields its bytes encode, in order from the first, and then ends in a
  panic: no error is sent and no later frame is decoded. For a frame that is whole in the
  input buffer when the pass starts, \<open>buf\<close> is the frame's payload.
\<close>

theorem C2_short_payload:
  "(Read_buf p 1 = (Inr [0xf4], p1) \<and> Read_buf p1 3 = (Inr [0xf3, 0xf2, 0xf1], p2)
      \<and> Read_buf p2 2 = (Inr [lo, hi], p3) \<and> push_bit 8 (unat hi) OR unat lo \<noteq> 0
      \<and> Read_buf p3 (push_bit 8 (unat hi) OR unat lo) = (Inr buf, p4) \<longrightarrow>
      length buf = push_bit 8 (unat hi) OR unat lo
      \<and> (length buf - 1 < 6 * unat (buf ! 0) \<longrightarrow>
           read_B p =
             (map (\<lambda>i. \<lparr>Alarm = (uint (drop 1 buf ! (6 * i)) = 1),
                          Angle = uint (drop 1 buf ! (6 * i + 1)) - 0x80,
                          Distance = uint (drop 1 buf ! (6 * i + 2)),
                          Direction = uint (drop 1 buf ! (6 * i + 3)),
                          Speed = uint (drop 1 buf ! (6 * i + 4)),
                          SNR = uint (drop 1 buf ! (6 * i + 5))\<rparr>)
                  [0..<(length buf - 1) div 6],
              Panic))
      \<and> (length buf - 2 < 6 * unat (buf ! 0) \<longrightarrow>
           read_A p =
             (map (\<lambda>i. \<lparr>Angle_A = uint (drop 2 buf ! (6 * i + 1)) - 0x80,
                          Distance_A = uint (drop 2 buf ! (6 * i + 2)),
                          Direction_A = uint (drop 2 buf ! (6 * i + 3)),
                          Speed_A = uint (drop 2 buf ! (6 * i + 4)),
                          SNR_A = uint (drop 2 buf ! (6 * i + 5))\<rparr>)
                  [0..<(length buf - 2) div 6],
              Panic)))
   \<and> (push_bit 8 (unat hi') OR unat lo' = length payload \<and> payload \<noteq> [] \<longrightarrow>
      (length payload - 1 < 6 * unat (payload ! 0) \<longrightarrow>
           read_B (q\<lparr>buffered := 0xf4 # 0xf3 # 0xf2 # 0xf1 # lo' # hi' # payload @ rest\<rparr>) =
             (map (\<lambda>i. \<lparr>Alarm = (uint (drop 1 payload ! (6 * i)) = 1),
                          Angle = uint (drop 1 payload ! (6 * i + 1)) - 0x80,
                          Distance = uint (drop 1 payload ! (6 * i + 2)),
                          Direction = uint (drop 1 payload ! (6 * i + 3)),
                          Speed = uint (drop 1 payload ! (6 * i + 4)),
                          SNR = uint (drop 1 payload ! (6 * i + 5))\<rparr>)
                  [0..<(length payload - 1) div 6],
              Panic))
      \<and> (length payload - 2 < 6 * unat (payload ! 0) \<longrightarrow>
           read_A (q\<lparr>buffered := 0xf4 # 0xf3 # 0xf2 # 0xf1 # lo' # hi' # payload @ rest\<rparr>) =
             (map (\<lambda>i. \<lparr>Angle_A = uint (drop 2 payload ! (6 * i + 1)) - 0x80,
                          Distance_A = uint (drop 2 payload ! (6 * i + 2)),
                          Direction_A = uint (drop 2 payload ! (6 * i + 3)),
                          Speed_A = uint (drop 2 payload ! (6 * i + 4)),
                          SNR_A = uint (drop 2 payload ! (6 * i + 5))\<rparr>)
                  [0..<(length payload - 2) div 6],
              Panic)))"
proof -
  have short: "length b < 6 * n \<Longrightarrow> min n (length b div 6) = length b div 6"
    for b :: "byte list" and n
    by (simp add: less_mult_imp_div_less min_def mult.commute)
  have B: "read_body_B x = (case targets_B n b of
        (ts, False) \<Rightarrow> (ts, Inl Panic) | (ts, True) \<Rightarrow> (ts, Inr y)) \<Longrightarrow> length b < 6 * n \<Longrightarrow>
      read_B x =
        (map (\<lambda>i. \<lparr>Alarm = (uint (b ! (6 * i)) = 1), Angle = uint (b ! (6 * i + 1)) - 0x80,
                     Distance = uint (b ! (6 * i + 2)), Direction = uint (b ! (6 * i + 3)),
                     Speed = uint (b ! (6 * i + 4)), SNR = uint (b ! (6 * i + 5))\<rparr>)
             [0..<length b div 6],
         Panic)" for x n b y
    by (rule read_B_stop) (simp add: targets_B_explicit short)
  have A: "read_body_A x = (case slice_from pl 2 of
        None \<Rightarrow> ([], Inl Panic)
      | Some body \<Rightarrow>
          (case targets_A n body of
             (ts, False) \<Rightarrow> (ts, Inl Panic)
           | (ts, True) \<Rightarrow> f ts)) \<Longrightarrow> length pl - 2 < 6 * n \<Longrightarrow>
      read_A x =
        (map (\<lambda>i. \<lparr>Angle_A = uint (drop 2 pl ! (6 * i + 1)) - 0x80,
                     Distance_A = uint (drop 2 pl ! (6 * i + 2)),
                     Direction_A = uint (drop 2 pl ! (6 * i + 3)),
                     Speed_A = uint (drop 2 pl ! (6 * i + 4)),
                     SNR_A = uint (drop 2 pl ! (6 * i + 5))\<rparr>)
             [0..<(length pl - 2) div 6],
         Panic)" for x n pl f
    by (rule read_A_stop)
       (cases "2 \<le> length pl"; simp add: slice_from_def targets_A_explicit short)
  show ?thesis
  proof (intro conjI impI)
    assume steps: "Read_buf p 1 = (Inr [0xf4], p1) \<and> Read_buf p1 3 = (Inr [0xf3, 0xf2, 0xf1], p2)
      \<and> Read_buf p2 2 = (Inr [lo, hi], p3) \<and> push_bit 8 (unat hi) OR unat lo \<noteq> 0
      \<and> Read_buf p3 (push_bit 8 (unat hi) OR unat lo) = (Inr buf, p4)"
    then have s1: "Read_buf p 1 = (Inr [0xf4], p1)"
      and s2: "Read_buf p1 3 = (Inr [0xf3, 0xf2, 0xf1], p2)"
      and s3: "Read_buf p2 2 = (Inr [lo, hi], p3)"
      and s4: "push_bit 8 (unat hi) OR unat lo \<noteq> 0"
      and s5: "Read_buf p3 (push_bit 8 (unat hi) OR unat lo) = (Inr buf, p4)"
      by simp_all
    from s5 show "length buf = push_bit 8 (unat hi) OR unat lo"
      by (rule Read_buf_length)
    have b: "read_body_B p =
       (case targets_B (unat (buf ! 0)) (drop 1 buf) of
          (ts, False) \<Rightarrow> (ts, Inl Panic)
        | (ts, True) \<Rightarrow> (ts, Inr (port_Flush p4)))"
      by (rule body_B_steps [OF s1 s2 s3 s4 s5])
    have a: "read_body_A p =
       (case slice_from buf 2 of
          None \<Rightarrow> ([], Inl Panic)
        | Some body \<Rightarrow>
            (case targets_A (unat (buf ! 0)) body of
               (ts, False) \<Rightarrow> (ts, Inl Panic)
             | (ts, True) \<Rightarrow>
                 (case Read_buf p4 4 of
                    (Inl err, _) \<Rightarrow> (ts, Inl (Failed err))
                  | (Inr footer, p5) \<Rightarrow> (ts, Inr p5))))"
      by (rule body_A_steps [OF s1 s2 s3 s4 s5])
    {
      assume "length buf - 1 < 6 * unat (buf ! 0)"
      with B [OF b] show "read_B p =
             (map (\<lambda>i. \<lparr>Alarm = (uint (drop 1 buf ! (6 * i)) = 1),
                          Angle = uint (drop 1 buf ! (6 * i + 1)) - 0x80,
                          Distance = uint (drop 1 buf ! (6 * i + 2)),
                          Direction = uint (drop 1 buf ! (6 * i + 3)),
                          Speed = uint (drop 1 buf ! (6 * i + 4)),
                          SNR = uint (drop 1 buf ! (6 * i + 5))\<rparr>)
                  [0..<(length buf - 1) div 6],
              Panic)"
        by simp
    }
    {
      assume "length buf - 2 < 6 * unat (buf ! 0)"
      with A [OF a] show "read_A p =
             (map (\<lambda>i. \<lparr>Angle_A = uint (drop 2 buf ! (6 * i + 1)) - 0x80,
                          Distance_A = uint (drop 2 buf ! (6 * i + 2)),
                          Direction_A = uint (drop 2 buf ! (6 * i + 3)),
                          Speed_A = uint (drop 2 buf ! (6 * i + 4)),
                          SNR_A = uint (drop 2 buf ! (6 * i + 5))\<rparr>)
                  [0..<(length buf - 2) div 6],
              Panic)"
        by simp
    }
  next
    assume fr: "push_bit 8 (unat hi') OR unat lo' = length payload \<and> payload \<noteq> []"
    then have len: "push_bit 8 (unat hi') OR unat lo' = length payload" and ne: "payload \<noteq> []"
      by simp_all
    assume "length payload - 1 < 6 * unat (payload ! 0)"
    with B [OF body_B_frame [OF len ne]]
    show "read_B (q\<lparr>buffered := 0xf4 # 0xf3 # 0xf2 # 0xf1 # lo' # hi' # payload @ rest\<rparr>) =
             (map (\<lambda>i. \<lparr>Alarm = (uint (drop 1 payload ! (6 * i)) = 1),
                          Angle = uint (drop 1 payload ! (6 * i + 1)) - 0x80,
                          Distance = uint (drop 1 payload ! (6 * i + 2)),
                          Direction = uint (drop 1 payload ! (6 * i + 3)),
                          Speed = uint (drop 1 payload ! (6 * i + 4)),
                          SNR = uint (drop 1 payload ! (6 * i + 5))\<rparr>)
                  [0..<(length payload - 1) div 6],
              Panic)"
      by simp
  next
    assume fr: "push_bit 8 (unat hi') OR unat lo' = length payload \<and> payload \<noteq> []"
    then have len: "push_bit 8 (unat hi') OR unat lo' = length payload" and ne: "payload \<noteq> []"
      by simp_all
    assume "length payload - 2 < 6 * unat (payload ! 0)"
    with A [OF body_A_frame [OF len ne]]
    show "read_A (q\<lparr>buffered := 0xf4 # 0xf3 # 0xf2 # 0xf1 # lo' # hi' # payload @ rest\<rparr>) =
             (map (\<lambda>i. \<lparr>Angle_A = uint (drop 2 payload ! (6 * i + 1)) - 0x80,
                          Distance_A = uint (drop 2 payload ! (6 * i + 2)),
                          Direction_A = uint (drop 2 payload ! (6 * i + 3)),
                          Speed_A = uint (drop 2 payload ! (6 * i + 4)),
                          SNR_A = uint (drop 2 payload ! (6 * i + 5))\<rparr>)
                  [0..<(length payload - 2) div 6],
              Panic)"
      by simp
  qed
qed

text \<open>Two instances: a frame that announces two targets in eight payload bytes, first with
  three of the payload bytes arrived when the payload is read, then whole in the buffer.\<close>

theorem C2_short_payload_witness:
  "Read_buf \<lparr>buffered = [0xf4, 0xf3, 0xf2, 0xf1, 0x08, 0x00, 0x02, 0x00, 0x90],
             incoming = [Bytes [0x0A, 0x01, 0x14, 0x1E, 0x05, 0xF8, 0xF7, 0xF6, 0xF5]],
             written = [], wresults = []\<rparr> 1
     = (Inr [0xf4],
        \<lparr>buffered = [0xf3, 0xf2, 0xf1, 0x08, 0x00, 0x02, 0x00, 0x90],
         incoming = [Bytes [0x0A, 0x01, 0x14, 0x1E, 0x05, 0xF8, 0xF7, 0xF6, 0xF5]],
         written = [], wresults = []\<rparr>)
   \<and> Read_buf \<lparr>buffered = [0xf3, 0xf2, 0xf1, 0x08, 0x00, 0x02, 0x00, 0x90],
               incoming = [Bytes [0x0A, 0x01, 0x14, 0x1E, 0x05, 0xF8, 0xF7, 0xF6, 0xF5]],
               written = [], wresults = []\<rparr> 3
     = (Inr [0xf3, 0xf2, 0xf1],
        \<lparr>buffered = [0x08, 0x00, 0x02, 0x00, 0x90],
         incoming = [Bytes [0x0A, 0x01, 0x14, 0x1E, 0x05, 0xF8, 0xF7, 0xF6, 0xF5]],
         written = [], wresults = []\<rparr>)
   \<and> Read_buf \<lparr>buffered = [0x08, 0x00, 0x02, 0x00, 0x90],
               incoming = [Bytes [0x0A, 0x01, 0x14, 0x1E, 0x05, 0xF8, 0xF7, 0xF6, 0xF5]],
               written = [], wresults = []\<rparr> 2
     = (Inr [0x08, 0x00],
        \<lparr>buffered = [0x02, 0x00, 0x90],
         incoming = [Bytes [0x0A, 0x01, 0x14, 0x1E, 0x05, 0xF8, 0xF7, 0xF6, 0xF5]],
         written = [], wresults = []\<rparr>)
   \<and> push_bit 8 (unat (0 :: byte)) OR unat (8 :: byte) = 8
   \<and> Read_buf \<lparr>buffered = [0x02, 0x00, 0x90],
               incoming = [Bytes [0x0A, 0x01, 0x14, 0x1E, 0x05, 0xF8, 0xF7, 0xF6, 0xF5]],
               written = [], wresults = []\<rparr> 8
     = (Inr [0x02, 0x00, 0x90, 0, 0, 0, 0, 0],
        \<lparr>buffered = [],
         incoming = [Bytes [0x0A, 0x01, 0x14, 0x1E, 0x05, 0xF8, 0xF7, 0xF6, 0xF5]],
         written = [], wresults = []\<rparr>)
   \<and> read_B \<lparr>buffered = [0xf4, 0xf3, 0xf2, 0xf1, 0x08, 0x00, 0x02, 0x00, 0x90],
               incoming = [Bytes [0x0A, 0x01, 0x14, 0x1E, 0x05, 0xF8, 0xF7, 0xF6, 0xF5]],
               written = [], wresults = []\<rparr>
     = ([\<lparr>Alarm = False, Angle = 16, Distance = 0, Direction = 0, Speed = 0, SNR = 0\<rparr>], Panic)
   \<and> read_A \<lparr>buffered = [0xf4, 0xf3, 0xf2, 0xf1, 0x08, 0x00, 0x02, 0x00, 0x90],
               incoming = [Bytes [0x0A, 0x01, 0x14, 0x1E, 0x05, 0xF8, 0xF7, 0xF6, 0xF5]],
               written = [], wresults = []\<rparr>
     = ([\<lparr>Angle_A = - 128, Distance_A = 0, Direction_A = 0, Speed_A = 0, SNR_A = 0\<rparr>], Panic)
   \<and> length [0x02, 0x00, 0x90, 0x0A, 0x01, 0x14, 0x1E, 0x05 :: byte] - 1
       < 6 * unat ([0x02, 0x00, 0x90, 0x0A, 0x01, 0x14, 0x1E, 0x05 :: byte] ! 0)
   \<and> read_B (port_of [0xf4, 0xf3, 0xf2, 0xf1, 0x08, 0x00, 0x02, 0x00, 0x90, 0x0A, 0x01, 0x14,
                      0x1E, 0x05, 0xF8, 0xF7, 0xF6, 0xF5])
       = ([\<lparr>Alarm = False, Angle = 16, Distance = 10, Direction = 1, Speed = 20, SNR = 30\<rparr>],
          Panic)
   \<and> read_A (port_of [0xf4, 0xf3, 0xf2, 0xf1, 0x08, 0x00, 0x02, 0x00, 0x90, 0x0A, 0x01, 0x14,
                      0x1E, 0x05, 0xF8, 0xF7, 0xF6, 0xF5])
       = ([\<lparr>Angle_A = - 118, Distance_A = 1, Direction_A = 20, Speed_A = 30, SNR_A = 5\<rparr>],
          Panic)"
proof -
  let ?late = "[Bytes [0x0A, 0x01, 0x14, 0x1E, 0x05, 0xF8, 0xF7, 0xF6, 0xF5]]"
  let ?p = "\<lparr>buffered = [0xf4, 0xf3, 0xf2, 0xf1, 0x08, 0x00, 0x02, 0x00, 0x90],
             incoming = ?late, written = [], wresults = []\<rparr>"
  let ?p1 = "\<lparr>buffered = [0xf3, 0xf2, 0xf1, 0x08, 0x00, 0x02, 0x00, 0x90],
              incoming = ?late, written = [], wresults = []\<rparr>"
  let ?p2 = "\<lparr>buffered = [0x08, 0x00, 0x02, 0x00, 0x90],
              incoming = ?late, written = [], wresults = []\<rparr>"
  let ?p3 = "\<lparr>buffered = [0x02, 0x00, 0x90], incoming = ?late, written = [], wresults = []\<rparr>"
  let ?p4 = "\<lparr>buffered = [], incoming = ?late, written = [], wresults = []\<rparr>"
  have r1: "Read_buf ?p 1 = (Inr [0xf4], ?p1)"
    by (simp add: Read_buf_def port_Read_def)
  have r2: "Read_buf ?p1 3 = (Inr [0xf3, 0xf2, 0xf1], ?p2)"
    by (simp add: Read_buf_def port_Read_def)
  have r3: "Read_buf ?p2 2 = (Inr [0x08, 0x00], ?p3)"
    by (simp add: Read_buf_def port_Read_def)
  have n: "push_bit 8 (unat (0 :: byte)) OR unat (8 :: byte) = 8"
    by simp
  have r4: "Read_buf ?p3 8 = (Inr [0x02, 0x00, 0x90, 0, 0, 0, 0, 0], ?p4)"
    by (simp add: Read_buf_def port_Read_def numeral_eq_Suc)
  from r1 r2 r3 r4 n
    C2_short_payload [where p = ?p and ?p1.0 = ?p1 and ?p2.0 = ?p2 and ?p3.0 = ?p3
      and lo = 8 and hi = 0 and buf = "[0x02, 0x00, 0x90, 0, 0, 0, 0, 0]" and ?p4.0 = ?p4]
  have g: "read_B ?p
      = ([\<lparr>Alarm = False, Angle = 16, Distance = 0, Direction = 0, Speed = 0, SNR = 0\<rparr>], Panic)
    \<and> read_A ?p
      = ([\<lparr>Angle_A = - 128, Distance_A = 0, Direction_A = 0, Speed_A = 0, SNR_A = 0\<rparr>], Panic)"
    by simp
  from C2_short_payload [where hi' = 0 and lo' = 8 and q = "port_of []"
      and payload = "[0x02, 0x00, 0x90, 0x0A, 0x01, 0x14, 0x1E, 0x05]"
      and rest = "[0xF8, 0xF7, 0xF6, 0xF5]"]
  have f: "read_B (port_of [0xf4, 0xf3, 0xf2, 0xf1, 0x08, 0x00, 0x02, 0x00, 0x90, 0x0A, 0x01, 0x14,
                      0x1E, 0x05, 0xF8, 0xF7, 0xF6, 0xF5])
       = ([\<lparr>Alarm = False, Angle = 16, Distance = 10, Direction = 1, Speed = 20, SNR = 30\<rparr>],
          Panic)
   \<and> read_A (port_of [0xf4, 0xf3, 0xf2, 0xf1, 0x08, 0x00, 0x02, 0x00, 0x90, 0x0A, 0x01, 0x14,
                      0x1E, 0x05, 0xF8, 0xF7, 0xF6, 0xF5])
       = ([\<lparr>Angle_A = - 118, Distance_A = 1, Direction_A = 20, Speed_A = 30, SNR_A = 5\<rparr>],
          Panic)"
    by (simp add: port_of_def)
  from r1 r2 r3 r4 n g f show ?thesis by simp
qed

subsection \<open>C3: what a read step does with a short read\<close>

text \<open>
  C3, as the claim states it: at every read step the loop either obtains exactly the number
  of bytes it asked for or treats the step as a hard failure. It does not hold: every step
  drops the count that \<^verbatim>\<open>Read\<close> returns. Below, the frame's header and length and three of
  its seven payload bytes have arrived, the rest follows later. The read of the payload
  delivers three bytes and no error, and the loop goes on with them and four zero bytes: it
  sends a target whose distance, direction, speed and SNR are 0.
\<close>

theorem C3_read_steps_counterexample:
  "fst (port_Read \<lparr>buffered = [0x01, 0x00, 0x90],
                   incoming = [Bytes [0x0A, 0x01, 0x14, 0x1E, 0xF8, 0xF7, 0xF6, 0xF5]],
                   written = [], wresults = []\<rparr> 7)
     = ([0x01, 0x00, 0x90], None)
   \<and> read_body_B \<lparr>buffered = [0xF4, 0xF3, 0xF2, 0xF1, 0x07, 0x00, 0x01, 0x00, 0x90],
                   incoming = [Bytes [0x0A, 0x01, 0x14, 0x1E, 0xF8, 0xF7, 0xF6, 0xF5]],
                   written = [], wresults = []\<rparr>
     = ([\<lparr>Alarm = False, Angle = 16, Distance = 0, Direction = 0, Speed = 0, SNR = 0\<rparr>],
        Inr \<lparr>buffered = [],
             incoming = [Bytes [0x0A, 0x01, 0x14, 0x1E, 0xF8, 0xF7, 0xF6, 0xF5]],
             written = [], wresults = []\<rparr>)"
  by code_simp

text \<open>
  C3, amended. At every read step of the decode loop (header byte, rest of the header,
  length, payload or the four bytes of an empty frame, footer) an error reported by the
  byte source is a hard failure: the loop sends that error and ends. When the source
  reports no error the loop goes on, however many bytes the read delivered, with a buffer
  of the length it asked for that holds the bytes delivered and zero bytes after them:
  a first byte other than 0xF4, or none, restarts the scan; a block other than F3 F2 F1,
  or a shorter one, restarts the scan; the length is decoded from the two bytes of the
  buffer; the four bytes of an empty frame and of the footer are dropped as delivered; and
  the targets are decoded from the payload buffer.
\<close>

theorem C3_read_steps:
  "(case port_Read p k of
      ((got, Some err), p') \<Rightarrow> Read_buf p k = (Inl err, p')
    | ((got, None), p') \<Rightarrow>
        length got \<le> k \<and> Read_buf p k = (Inr (got @ replicate (k - length got) 0), p'))
   \<and> (Read_buf p 1 = (Inl e, q) \<longrightarrow>
        read_body_B p = ([], Inl (Failed e)) \<and> read_body_A p = ([], Inl (Failed e)))
   \<and> (Read_buf p 1 = (Inr [0xf4], p1) \<and> Read_buf p1 3 = (Inl e, q) \<longrightarrow>
        read_body_B p = ([], Inl (Failed e)) \<and> read_body_A p = ([], Inl (Failed e)))
   \<and> (Read_buf p 1 = (Inr [0xf4], p1) \<and> Read_buf p1 3 = (Inr [0xf3, 0xf2, 0xf1], p2)
        \<and> Read_buf p2 2 = (Inl e, q) \<longrightarrow>
        read_body_B p = ([], Inl (Failed e)) \<and> read_body_A p = ([], Inl (Failed e)))
   \<and> (Read_buf p 1 = (Inr [0xf4], p1) \<and> Read_buf p1 3 = (Inr [0xf3, 0xf2, 0xf1], p2)
        \<and> Read_buf p2 2 = (Inr [lo, hi], p3)
        \<and> Read_buf p3 (if push_bit 8 (unat hi) OR unat lo = 0 then 4
                        else push_bit 8 (unat hi) OR unat lo) = (Inl e, q) \<longrightarrow>
        read_body_B p = ([], Inl (Failed e)) \<and> read_body_A p = ([], Inl (Failed e)))
   \<and> (Read_buf p 1 = (Inr [0xf4], p1) \<and> Read_buf p1 3 = (Inr [0xf3, 0xf2, 0xf1], p2)
        \<and> Read_buf p2 2 = (Inr [lo, hi], p3) \<and> push_bit 8 (unat hi) OR unat lo \<noteq> 0
        \<and> Read_buf p3 (push_bit 8 (unat hi) OR unat lo) = (Inr payload, p4)
        \<and> 2 \<le> length payload
        \<and> targets_A (unat (payload ! 0)) (drop 2 payload) = (ts, True)
        \<and> Read_buf p4 4 = (Inl e, q) \<longrightarrow>
        read_body_A p = (ts, Inl (Failed e)))
   \<and> (port_Read p 1 = ((got, None), p1) \<and> got \<noteq> [0xf4] \<longrightarrow>
        read_body_B p = ([], Inr p1) \<and> read_body_A p = ([], Inr p1))
   \<and> (Read_buf p 1 = (Inr [0xf4], p1) \<and> port_Read p1 3 = ((got, None), p2)
        \<and> got \<noteq> [0xf3, 0xf2, 0xf1] \<longrightarrow>
        read_body_B p = ([], Inr p2) \<and> read_body_A p = ([], Inr p2))
   \<and> (Read_buf p 1 = (Inr [0xf4], p1) \<and> Read_buf p1 3 = (Inr [0xf3, 0xf2, 0xf1], p2)
        \<and> port_Read p2 2 = ((got, None), p3) \<longrightarrow>
        Read_buf p2 2 = (Inr (got @ replicate (2 - length got) 0), p3))
   \<and> (Read_buf p 1 = (Inr [0xf4], p1) \<and> Read_buf p1 3 = (Inr [0xf3, 0xf2, 0xf1], p2)
        \<and> Read_buf p2 2 = (Inr [lo, hi], p3) \<and> push_bit 8 (unat hi) OR unat lo = 0
        \<and> port_Read p3 4 = ((got, None), p4) \<longrightarrow>
        read_body_B p = ([], Inr p4) \<and> read_body_A p = ([], Inr p4))
   \<and> (Read_buf p 1 = (Inr [0xf4], p1) \<and> Read_buf p1 3 = (Inr [0xf3, 0xf2, 0xf1], p2)
        \<and> Read_buf p2 2 = (Inr [lo, hi], p3) \<and> push_bit 8 (unat hi) OR unat lo \<noteq> 0
        \<and> port_Read p3 (push_bit 8 (unat hi) OR unat lo) = ((got, None), p4)
        \<and> buf = got @ replicate ((push_bit 8 (unat hi) OR unat lo) - length got) 0 \<longrightarrow>
        read_body_B p =
          (case targets_B (unat (buf ! 0)) (drop 1 buf) of
             (sent, False) \<Rightarrow> (sent, Inl Panic)
           | (sent, True) \<Rightarrow> (sent, Inr (port_Flush p4)))
        \<and> (2 \<le> length buf \<and> targets_A (unat (buf ! 0)) (drop 2 buf) = (ts, True)
             \<and> port_Read p4 4 = ((got', None), p5) \<longrightarrow>
             read_body_A p = (ts, Inr p5)))"
proof (intro conjI impI)
  show "case port_Read p k of
      ((got, Some err), p') \<Rightarrow> Read_buf p k = (Inl err, p')
    | ((got, None), p') \<Rightarrow>
        length got \<le> k \<and> Read_buf p k = (Inr (got @ replicate (k - length got) 0), p')"
    by (auto simp: Read_buf_def port_Read_def split: list.splits arrival.splits)
next
  assume a: "port_Read p 1 = ((got, None), p1) \<and> got \<noteq> [0xf4]"
  then have "length got \<le> 1" by (blast dest: port_Read_length)
  with a have "(got @ replicate (1 - length got) 0) ! 0 \<noteq> 0xf4"
    by (cases got) auto
  with a show "read_body_B p = ([], Inr p1)" and "read_body_A p = ([], Inr p1)"
    by (simp_all add: read_body_B_def read_body_A_def frameheader_def Read_buf_def)
next
  assume a: "Read_buf p 1 = (Inr [0xf4], p1) \<and> port_Read p1 3 = ((got, None), p2)
        \<and> got \<noteq> [0xf3, 0xf2, 0xf1]"
  then have le: "length got \<le> 3" by (blast dest: port_Read_length)
  have "got @ replicate (3 - length got) 0 \<noteq> [0xf3, 0xf2, 0xf1 :: byte]"
  proof (cases "length got = 3")
    case True
    with a show ?thesis by simp
  next
    case False
    with le have "last (got @ replicate (3 - length got) 0) = (0 :: byte)" by simp
    then show ?thesis by auto
  qed
  with a show "read_body_B p = ([], Inr p2)" and "read_body_A p = ([], Inr p2)"
    by (simp_all add: read_body_B_def read_body_A_def frameheader_def Read_buf_no_error)
next
  assume "Read_buf p 1 = (Inr [0xf4], p1) \<and> Read_buf p1 3 = (Inr [0xf3, 0xf2, 0xf1], p2)
        \<and> port_Read p2 2 = ((got, None), p3)"
  then show "Read_buf p2 2 = (Inr (got @ replicate (2 - length got) 0), p3)"
    by (simp add: Read_buf_no_error)
next
  assume a: "Read_buf p 1 = (Inr [0xf4], p1) \<and> Read_buf p1 3 = (Inr [0xf3, 0xf2, 0xf1], p2)
        \<and> Read_buf p2 2 = (Inr [lo, hi], p3) \<and> push_bit 8 (unat hi) OR unat lo = 0
        \<and> port_Read p3 4 = ((got, None), p4)"
  then show "read_body_B p = ([], Inr p4)" and "read_body_A p = ([], Inr p4)"
    by (simp_all add: read_body_B_def read_body_A_def frameheader_def Read_buf_no_error)
next
  assume a: "Read_buf p 1 = (Inr [0xf4], p1) \<and> Read_buf p1 3 = (Inr [0xf3, 0xf2, 0xf1], p2)
        \<and> Read_buf p2 2 = (Inr [lo, hi], p3) \<and> push_bit 8 (unat hi) OR unat lo \<noteq> 0
        \<and> port_Read p3 (push_bit 8 (unat hi) OR unat lo) = ((got, None), p4)
        \<and> buf = got @ replicate ((push_bit 8 (unat hi) OR unat lo) - length got) 0"
  then have s1: "Read_buf p 1 = (Inr [0xf4], p1)"
    and s2: "Read_buf p1 3 = (Inr [0xf3, 0xf2, 0xf1], p2)"
    and s3: "Read_buf p2 2 = (Inr [lo, hi], p3)"
    and s4: "push_bit 8 (unat hi) OR unat lo \<noteq> 0"
    and s5: "Read_buf p3 (push_bit 8 (unat hi) OR unat lo) = (Inr buf, p4)"
    by (simp_all add: Read_buf_no_error)
  show "read_body_B p =
          (case targets_B (unat (buf ! 0)) (drop 1 buf) of
             (sent, False) \<Rightarrow> (sent, Inl Panic)
           | (sent, True) \<Rightarrow> (sent, Inr (port_Flush p4)))"
    by (rule body_B_steps [OF s1 s2 s3 s4 s5])
  assume "2 \<le> length buf \<and> targets_A (unat (buf ! 0)) (drop 2 buf) = (ts, True)
             \<and> port_Read p4 4 = ((got', None), p5)"
  then show "read_body_A p = (ts, Inr p5)"
    by (simp add: body_A_steps [OF s1 s2 s3 s4 s5] slice_from_def Read_buf_no_error)
qed (auto simp: read_body_B_def read_body_A_def frameheader_def slice_from_def Let_def
    split: if_splits)

text \<open>Two instances: the device fails at the read of the payload; and the payload read of
  the example above, which delivers three bytes of seven and lets the pass go on.\<close>

theorem C3_read_steps_witness:
  "Read_buf (port_of []\<lparr>incoming := [Fault (Error ''gone'')]\<rparr>) 7
     = (Inl (Error ''gone''), port_of [])
   \<and> read_body_B (port_of [0xf4, 0xf3, 0xf2, 0xf1, 0x07, 0x00]\<lparr>incoming := [Fault (Error ''gone'')]\<rparr>)
     = ([], Inl (Failed (Error ''gone'')))
   \<and> read_body_A (port_of [0xf4, 0xf3, 0xf2, 0xf1, 0x07, 0x00]\<lparr>incoming := [Fault (Error ''gone'')]\<rparr>)
     = ([], Inl (Failed (Error ''gone'')))
   \<and> port_Read \<lparr>buffered = [0x01, 0x00, 0x90],
                incoming = [Bytes [0x0A, 0x01, 0x14, 0x1E, 0xF8, 0xF7, 0xF6, 0xF5]],
                written = [], wresults = []\<rparr> 7
     = (([0x01, 0x00, 0x90], None),
        \<lparr>buffered = [],
         incoming = [Bytes [0x0A, 0x01, 0x14, 0x1E, 0xF8, 0xF7, 0xF6, 0xF5]],
         written = [], wresults = []\<rparr>)
   \<and> read_body_B \<lparr>buffered = [0xF4, 0xF3, 0xF2, 0xF1, 0x07, 0x00, 0x01, 0x00, 0x90],
                   incoming = [Bytes [0x0A, 0x01, 0x14, 0x1E, 0xF8, 0xF7, 0xF6, 0xF5]],
                   written = [], wresults = []\<rparr>
     = ([\<lparr>Alarm = False, Angle = 16, Distance = 0, Direction = 0, Speed = 0, SNR = 0\<rparr>],
        Inr \<lparr>buffered = [],
             incoming = [Bytes [0x0A, 0x01, 0x14, 0x1E, 0xF8, 0xF7, 0xF6, 0xF5]],
             written = [], wresults = []\<rparr>)"
proof -
  let ?gone = "[Fault (Error ''gone'')]"
  have r1: "Read_buf (port_of [0xf4, 0xf3, 0xf2, 0xf1, 0x07, 0x00]\<lparr>incoming := ?gone\<rparr>) 1
     = (Inr [0xf4], port_of [0xf3, 0xf2, 0xf1, 0x07, 0x00]\<lparr>incoming := ?gone\<rparr>)"
    by (simp add: Read_buf_def port_Read_def port_of_def)
  have r2: "Read_buf (port_of [0xf3, 0xf2, 0xf1, 0x07, 0x00]\<lparr>incoming := ?gone\<rparr>) 3
     = (Inr [0xf3, 0xf2, 0xf1], port_of [0x07, 0x00]\<lparr>incoming := ?gone\<rparr>)"
    by (simp add: Read_buf_def port_Read_def port_of_def)
  have r3: "Read_buf (port_of [0x07, 0x00]\<lparr>incoming := ?gone\<rparr>) 2
     = (Inr [0x07, 0x00], port_of []\<lparr>incoming := ?gone\<rparr>)"
    by (simp add: Read_buf_def port_Read_def port_of_def)
  have r4: "Read_buf (port_of []\<lparr>incoming := ?gone\<rparr>) 7 = (Inl (Error ''gone''), port_of [])"
    by (simp add: Read_buf_def port_Read_def port_of_def)
  from r1 r2 r3 r4
    C3_read_steps [where p = "port_of [0xf4, 0xf3, 0xf2, 0xf1, 0x07, 0x00]\<lparr>incoming := ?gone\<rparr>"
      and ?p1.0 = "port_of [0xf3, 0xf2, 0xf1, 0x07, 0x00]\<lparr>incoming := ?gone\<rparr>"
      and ?p2.0 = "port_of [0x07, 0x00]\<lparr>incoming := ?gone\<rparr>"
      and ?p3.0 = "port_of []\<lparr>incoming := ?gone\<rparr>"
      and lo = 7 and hi = 0 and e = "Error ''gone''" and q = "port_of []" and k = 1]
  have failing:
    "read_body_B (port_of [0xf4, 0xf3, 0xf2, 0xf1, 0x07, 0x00]\<lparr>incoming := ?gone\<rparr>)
       = ([], Inl (Failed (Error ''gone'')))
     \<and> read_body_A (port_of [0xf4, 0xf3, 0xf2, 0xf1, 0x07, 0x00]\<lparr>incoming := ?gone\<rparr>)
       = ([], Inl (Failed (Error ''gone'')))"
    by simp
  let ?late = "[Bytes [0x0A, 0x01, 0x14, 0x1E, 0xF8, 0xF7, 0xF6, 0xF5]]"
  let ?s = "\<lparr>buffered = [0xF4, 0xF3, 0xF2, 0xF1, 0x07, 0x00, 0x01, 0x00, 0x90],
             incoming = ?late, written = [], wresults = []\<rparr>"
  let ?s1 = "\<lparr>buffered = [0xF3, 0xF2, 0xF1, 0x07, 0x00, 0x01, 0x00, 0x90],
              incoming = ?late, written = [], wresults = []\<rparr>"
  let ?s2 = "\<lparr>buffered = [0x07, 0x00, 0x01, 0x00, 0x90],
              incoming = ?late, written = [], wresults = []\<rparr>"
  let ?s3 = "\<lparr>buffered = [0x01, 0x00, 0x90], incoming = ?late, written = [], wresults = []\<rparr>"
  let ?s4 = "\<lparr>buffered = [], incoming = ?late, written = [], wresults = []\<rparr>"
  have t1: "Read_buf ?s 1 = (Inr [0xf4], ?s1)"
    by (simp add: Read_buf_def port_Read_def)
  have t2: "Read_buf ?s1 3 = (Inr [0xf3, 0xf2, 0xf1], ?s2)"
    by (simp add: Read_buf_def port_Read_def)
  have t3: "Read_buf ?s2 2 = (Inr [0x07, 0x00], ?s3)"
    by (simp add: Read_buf_def port_Read_def)
  have n: "push_bit 8 (unat (0 :: byte)) OR unat (7 :: byte) = 7"
    by simp
  have t4: "port_Read ?s3 7 = (([0x01, 0x00, 0x90], None), ?s4)"
    by (simp add: port_Read_def)
  have pad: "[0x01, 0x00, 0x90, 0, 0, 0, 0 :: byte] = [0x01, 0x00, 0x90] @ replicate (7 - 3) 0"
    by (simp add: numeral_eq_Suc)
  from t1 t2 t3 t4 n pad
    C3_read_steps [where p = ?s and ?p1.0 = ?s1 and ?p2.0 = ?s2 and ?p3.0 = ?s3
      and lo = 7 and hi = 0 and got = "[0x01, 0x00, 0x90]" and ?p4.0 = ?s4
      and buf = "[0x01, 0x00, 0x90, 0, 0, 0, 0]"]
  have short: "read_body_B ?s
      = ([\<lparr>Alarm = False, Angle = 16, Distance = 0, Direction = 0, Speed = 0, SNR = 0\<rparr>],
         Inr ?s4)"
    by (simp add: target_B_def index_def slice_from_def port_Flush_def)
  from r4 failing t4 short show ?thesis by simp
qed

subsection \<open>C4: \<^verbatim>\<open>ReadTarget\<close> after the error\<close>

text \<open>
  C4, as the claim states it: once \<^verbatim>\<open>ReadTarget\<close> has delivered the terminal error, every
  later call delivers it again and none blocks forever. It does not hold: \<^verbatim>\<open>read\<close> sends
  the error once on an unbuffered channel and returns, and the channel is never closed.
  Below, the port holds the frame of C1 and nothing more, the channel is made for 10 targets
  and \<^verbatim>\<open>make\<close> can go up to 4096. The first call can return the
  error; the call after it returns the target that was still in the channel; the call
  after that has nothing to receive, and never will.
\<close>

theorem C4_after_the_error_counterexample:
  "Open 4096 \<lparr>SerialPort = ''/dev/ttyUSB0'', BaudRate = 115200, TargetBufferSize = 10\<rparr>
        (Inr (port_of [0xF4, 0xF3, 0xF2, 0xF1, 0x07, 0x00, 0x01, 0x00, 0x90, 0x0A, 0x01, 0x14,
                       0x1E, 0xF8, 0xF7, 0xF6, 0xF5]))
     = Some (Inr \<lparr>config = \<lparr>SerialPort = ''/dev/ttyUSB0'', BaudRate = 115200,
                              TargetBufferSize = 10\<rparr>,
                   targets = [],
                   reader = Reading [\<lparr>Alarm = False, Angle = 16, Distance = 10, Direction = 1,
                                      Speed = 20, SNR = 30\<rparr>] (Failed EOF)\<rparr>)
   \<and> ReadTarget \<lparr>config = \<lparr>SerialPort = ''/dev/ttyUSB0'', BaudRate = 115200,
                            TargetBufferSize = 10\<rparr>,
                 targets = [],
                 reader = Reading [\<lparr>Alarm = False, Angle = 16, Distance = 10, Direction = 1,
                                    Speed = 20, SNR = 30\<rparr>] (Failed EOF)\<rparr>
     = [(Inr \<lparr>Alarm = False, Angle = 16, Distance = 10, Direction = 1, Speed = 20, SNR = 30\<rparr>,
         \<lparr>config = \<lparr>SerialPort = ''/dev/ttyUSB0'', BaudRate = 115200, TargetBufferSize = 10\<rparr>,
          targets = [], reader = Reading [] (Failed EOF)\<rparr>),
        (Inl EOF,
         \<lparr>config = \<lparr>SerialPort = ''/dev/ttyUSB0'', BaudRate = 115200, TargetBufferSize = 10\<rparr>,
          targets = [\<lparr>Alarm = False, Angle = 16, Distance = 10, Direction = 1, Speed = 20,
                      SNR = 30\<rparr>],
          reader = Returned\<rparr>)]
   \<and> ReadTarget \<lparr>config = \<lparr>SerialPort = ''/dev/ttyUSB0'', BaudRate = 115200,
                            TargetBufferSize = 10\<rparr>,
                 targets = [\<lparr>Alarm = False, Angle = 16, Distance = 10, Direction = 1,
                             Speed = 20, SNR = 30\<rparr>],
                 reader = Returned\<rparr>
     = [(Inr \<lparr>Alarm = False, Angle = 16, Distance = 10, Direction = 1, Speed = 20, SNR = 30\<rparr>,
         \<lparr>config = \<lparr>SerialPort = ''/dev/ttyUSB0'', BaudRate = 115200, TargetBufferSize = 10\<rparr>,
          targets = [], reader = Returned\<rparr>)]
   \<and> ReadTarget \<lparr>config = \<lparr>SerialPort = ''/dev/ttyUSB0'', BaudRate = 115200,
                            TargetBufferSize = 10\<rparr>,
                 targets = [], reader = Returned\<rparr>
     = []"
  by code_simp

text \<open>
  C4, amended. Once \<^verbatim>\<open>ReadTarget\<close> has delivered the error, every later call returns the next
  target still waiting in the target channel, if there is one, and otherwise never
  returns; the error is not delivered again.
\<close>

theorem C4_after_the_error:
  assumes "(Inl err, s1) \<in> set (ReadTarget s0)" and "s2 \<in> set (calls n s1)"
  shows "ReadTarget s2 =
           (case targets s2 of
              [] \<Rightarrow> []
            | target # rest \<Rightarrow> [(Inr target, s2\<lparr>targets := rest\<rparr>)])"
proof -
  from assms(1) have "reader s1 = Returned" by (rule ReadTarget_error_Returned)
  then have "reader s2 = Returned" using assms(2) by (rule calls_Returned)
  then show ?thesis by (rule ReadTarget_Returned)
qed

text \<open>An instance: the states of the example above.\<close>

theorem C4_after_the_error_witness:
  "(Inl EOF,
    \<lparr>config = \<lparr>SerialPort = ''/dev/ttyUSB0'', BaudRate = 115200, TargetBufferSize = 10\<rparr>,
     targets = [\<lparr>Alarm = False, Angle = 16, Distance = 10, Direction = 1, Speed = 20,
                 SNR = 30\<rparr>],
     reader = Returned\<rparr>)
     \<in> set (ReadTarget
              \<lparr>config = \<lparr>SerialPort = ''/dev/ttyUSB0'', BaudRate = 115200,
                         TargetBufferSize = 10\<rparr>,
               targets = [],
               reader = Reading [\<lparr>Alarm = False, Angle = 16, Distance = 10, Direction = 1,
                                  Speed = 20, SNR = 30\<rparr>] (Failed EOF)\<rparr>)
   \<and> \<lparr>config = \<lparr>SerialPort = ''/dev/ttyUSB0'', BaudRate = 115200, TargetBufferSize = 10\<rparr>,
      targets = [], reader = Returned\<rparr>
     \<in> set (calls 1
              \<lparr>config = \<lparr>SerialPort = ''/dev/ttyUSB0'', BaudRate = 115200,
                         TargetBufferSize = 10\<rparr>,
               targets = [\<lparr>Alarm = False, Angle = 16, Distance = 10, Direction = 1,
                           Speed = 20, SNR = 30\<rparr>],
               reader = Returned\<rparr>)
   \<and> ReadTarget \<lparr>config = \<lparr>SerialPort = ''/dev/ttyUSB0'', BaudRate = 115200,
                            TargetBufferSize = 10\<rparr>,
                 targets = [], reader = Returned\<rparr>
     = []"
proof -
  let ?cfg = "\<lparr>SerialPort = ''/dev/ttyUSB0'', BaudRate = 115200, TargetBufferSize = 10\<rparr>"
  let ?t = "\<lparr>Alarm = False, Angle = 16, Distance = 10, Direction = 1, Speed = 20, SNR = 30\<rparr>"
  let ?s0 = "\<lparr>config = ?cfg, targets = [], reader = Reading [?t] (Failed EOF)\<rparr>"
  let ?s1 = "\<lparr>config = ?cfg, targets = [?t], reader = Returned\<rparr>"
  let ?s2 = "\<lparr>config = ?cfg, targets = [], reader = Returned\<rparr>"
  have a: "(Inl EOF, ?s1) \<in> set (ReadTarget ?s0)"
    by (simp add: ReadTarget_def advance_def)
  have b: "?s2 \<in> set (calls 1 ?s1)"
    by (simp add: ReadTarget_def advance_def)
  from C4_after_the_error [OF a b] have "ReadTarget ?s2 = []" by simp
  with a b show ?thesis by simp
qed

subsection \<open>C5: failures in the command transaction\<close>

text \<open>
  C5, as the claim states it: every read failure, write failure, ack-start mismatch, status
  mismatch and terminator mismatch surfaces one error and aborts the rest of the
  transaction. It does not hold for write failures: the result of \<^verbatim>\<open>Write\<close> is dropped.
  Below, the first \<^verbatim>\<open>Write\<close> fails and the device's two acknowledgements are in the buffer:
  \<^verbatim>\<open>sendCommand\<close> sends no error and runs both steps to the end.
\<close>

theorem C5_write_failure_counterexample:
  "sendCommand \<lparr>buffered = [0xFD, 0xFC, 0xFB, 0xFA, 0x08, 0x00, 0xFF, 0x01, 0x00, 0x00, 0x01,
                             0x00, 0x40, 0x00, 0x04, 0x03, 0x02, 0x01,
                             0xFD, 0xFC, 0xFB, 0xFA, 0x04, 0x00, 0xFE, 0x01, 0x00, 0x00, 0x04,
                             0x03, 0x02, 0x01],
                 incoming = [], written = [],
                 wresults = [Some (Error ''write failed'')]\<rparr> []
     = (None,
        \<lparr>buffered = [], incoming = [],
         written = [[0xfd, 0xfc, 0xfb, 0xfa, 0x04, 0x00, 0xff, 0x00, 0x01, 0x00, 0x04, 0x03,
                     0x02, 0x01],
                    [0xfd, 0xfc, 0xfb, 0xfa, 0x02, 0x00, 0xfe, 0x00, 0x04, 0x03, 0x02, 0x01]],
         wresults = []\<rparr>)"
  by code_simp

text \<open>
  C5, amended. In each of the two steps a failed read, a first response byte other than
  0xFD, a status field other than 00 00 and a terminator other than 04 03 02 01 make
  \<^verbatim>\<open>sendCommand\<close> send exactly one error (the read's own error, or "failed to send command
  to the LD2451") and return at once: the port is left as the failing read left it, so
  nothing more is written or read. When all checks of both steps pass, no error is sent.
\<close>

theorem C5_transaction_failures:
  assumes w1: "port_Write p [0xfd, 0xfc, 0xfb, 0xfa, 0x04, 0x00, 0xff, 0x00, 0x01, 0x00,
                             0x04, 0x03, 0x02, 0x01] = (r1, p1)"
  shows
   "(Read_buf p1 1 = (Inl e, q) \<longrightarrow> sendCommand p command = (Some e, q))
  \<and> (Read_buf p1 1 = (Inr b, p2) \<and> b ! 0 \<noteq> 0xfd \<longrightarrow>
       sendCommand p command = (Some command_failed, p2))
  \<and> (Read_buf p1 1 = (Inr b, p2) \<and> b ! 0 = 0xfd \<and> Read_buf p2 17 = (Inl e, q) \<longrightarrow>
       sendCommand p command = (Some e, q))
  \<and> (Read_buf p1 1 = (Inr b, p2) \<and> b ! 0 = 0xfd \<and> Read_buf p2 17 = (Inr ack, p3)
       \<and> (take 2 (drop 7 ack) \<noteq> [0, 0] \<or> drop 13 ack \<noteq> [0x04, 0x03, 0x02, 0x01]) \<longrightarrow>
       sendCommand p command = (Some command_failed, p3))
  \<and> (Read_buf p1 1 = (Inr b, p2) \<and> b ! 0 = 0xfd \<and> Read_buf p2 17 = (Inr ack, p3)
       \<and> take 2 (drop 7 ack) = [0, 0] \<and> drop 13 ack = [0x04, 0x03, 0x02, 0x01]
       \<and> port_Write p3 [0xfd, 0xfc, 0xfb, 0xfa, 0x02, 0x00, 0xfe, 0x00, 0x04, 0x03, 0x02, 0x01]
           = (r2, p4) \<longrightarrow>
       (Read_buf p4 1 = (Inl e, q) \<longrightarrow> sendCommand p command = (Some e, q))
     \<and> (Read_buf p4 1 = (Inr b', p5) \<and> b' ! 0 \<noteq> 0xfd \<longrightarrow>
          sendCommand p command = (Some command_failed, p5))
     \<and> (Read_buf p4 1 = (Inr b', p5) \<and> b' ! 0 = 0xfd \<and> Read_buf p5 13 = (Inl e, q) \<longrightarrow>
          sendCommand p command = (Some e, q))
     \<and> (Read_buf p4 1 = (Inr b', p5) \<and> b' ! 0 = 0xfd \<and> Read_buf p5 13 = (Inr ack', p6)
          \<and> (take 2 (drop 7 ack') \<noteq> [0, 0] \<or> drop 9 ack' \<noteq> [0x04, 0x03, 0x02, 0x01]) \<longrightarrow>
          sendCommand p command = (Some command_failed, p6))
     \<and> (Read_buf p4 1 = (Inr b', p5) \<and> b' ! 0 = 0xfd \<and> Read_buf p5 13 = (Inr ack', p6)
          \<and> take 2 (drop 7 ack') = [0, 0] \<and> drop 9 ack' = [0x04, 0x03, 0x02, 0x01] \<longrightarrow>
          sendCommand p command = (None, p6)))"
proof -
  have l17: "length ack = 17" if "Read_buf p2 17 = (Inr ack, p3)" for ack
    using that by (rule Read_buf_length)
  have l13: "length ack' = 13" if "Read_buf p5 13 = (Inr ack', p6)" for ack' p5 p6
    using that by (rule Read_buf_length)
  show ?thesis
    using w1
    by (auto simp: sendCommand_def Let_def l17 l13)
qed

text \<open>Two instances. In the first the first acknowledgement carries the status 01 00, and
  the second command frame is never written. In the second the first step passes and the
  terminator of the second acknowledgement ends in 00.\<close>

theorem C5_transaction_failures_witness:
  "take 2 (drop 7 [0xFC, 0xFB, 0xFA, 0x08, 0x00, 0xFF, 0x01, 0x01, 0x00, 0x01, 0x00,
                    0x40, 0x00, 0x04, 0x03, 0x02, 0x01 :: byte]) \<noteq> [0, 0]
   \<and> sendCommand (port_of [0xFD, 0xFC, 0xFB, 0xFA, 0x08, 0x00, 0xFF, 0x01, 0x01, 0x00, 0x01,
                           0x00, 0x40, 0x00, 0x04, 0x03, 0x02, 0x01]) []
     = (Some command_failed,
        \<lparr>buffered = [], incoming = [],
         written = [[0xfd, 0xfc, 0xfb, 0xfa, 0x04, 0x00, 0xff, 0x00, 0x01, 0x00, 0x04, 0x03,
                     0x02, 0x01]],
         wresults = []\<rparr>)
   \<and> drop 9 [0xFC, 0xFB, 0xFA, 0x04, 0x00, 0xFE, 0x01, 0x00, 0x00, 0x04, 0x03, 0x02,
              0x00 :: byte] \<noteq> [0x04, 0x03, 0x02, 0x01]
   \<and> sendCommand (port_of [0xFD, 0xFC, 0xFB, 0xFA, 0x08, 0x00, 0xFF, 0x01, 0x00, 0x00, 0x01,
                           0x00, 0x40, 0x00, 0x04, 0x03, 0x02, 0x01,
                           0xFD, 0xFC, 0xFB, 0xFA, 0x04, 0x00, 0xFE, 0x01, 0x00, 0x00, 0x04,
                           0x03, 0x02, 0x00]) []
     = (Some command_failed,
        \<lparr>buffered = [], incoming = [],
         written = [[0xfd, 0xfc, 0xfb, 0xfa, 0x04, 0x00, 0xff, 0x00, 0x01, 0x00, 0x04, 0x03,
                     0x02, 0x01],
                    [0xfd, 0xfc, 0xfb, 0xfa, 0x02, 0x00, 0xfe, 0x00, 0x04, 0x03, 0x02, 0x01]],
         wresults = []\<rparr>)"
proof -
  let ?T1 = "[0xfd, 0xfc, 0xfb, 0xfa, 0x04, 0x00, 0xff, 0x00, 0x01, 0x00, 0x04, 0x03, 0x02,
              0x01 :: byte]"
  let ?T2 = "[0xfd, 0xfc, 0xfb, 0xfa, 0x02, 0x00, 0xfe, 0x00, 0x04, 0x03, 0x02, 0x01 :: byte]"
  let ?bad = "[0xFC, 0xFB, 0xFA, 0x08, 0x00, 0xFF, 0x01, 0x01, 0x00, 0x01, 0x00,
               0x40, 0x00, 0x04, 0x03, 0x02, 0x01 :: byte]"
  let ?p1 = "\<lparr>buffered = 0xFD # ?bad, incoming = [], written = [?T1], wresults = []\<rparr>"
  let ?p2 = "\<lparr>buffered = ?bad, incoming = [], written = [?T1], wresults = []\<rparr>"
  let ?p3 = "\<lparr>buffered = [], incoming = [], written = [?T1], wresults = []\<rparr>"
  have w: "port_Write (port_of (0xFD # ?bad)) ?T1 = (None, ?p1)"
    by (simp add: port_Write_def port_of_def)
  have r1: "Read_buf ?p1 1 = (Inr [0xFD], ?p2)"
    by (simp add: Read_buf_def port_Read_def)
  have r2: "Read_buf ?p2 17 = (Inr ?bad, ?p3)"
    by (simp add: Read_buf_def port_Read_def)
  from C5_transaction_failures [OF w, where b = "[0xFD]" and ?p2.0 = ?p2 and ack = ?bad
      and ?p3.0 = ?p3 and command = "[]"] r1 r2
  have first: "sendCommand (port_of (0xFD # ?bad)) [] = (Some command_failed, ?p3)"
    by simp
  let ?ack1 = "[0xFC, 0xFB, 0xFA, 0x08, 0x00, 0xFF, 0x01, 0x00, 0x00, 0x01, 0x00,
               0x40, 0x00, 0x04, 0x03, 0x02, 0x01 :: byte]"
  let ?ack2 = "[0xFC, 0xFB, 0xFA, 0x04, 0x00, 0xFE, 0x01, 0x00, 0x00, 0x04, 0x03, 0x02,
               0x00 :: byte]"
  let ?q1 = "\<lparr>buffered = 0xFD # ?ack1 @ 0xFD # ?ack2, incoming = [], written = [?T1],
             wresults = []\<rparr>"
  let ?q2 = "\<lparr>buffered = ?ack1 @ 0xFD # ?ack2, incoming = [], written = [?T1],
             wresults = []\<rparr>"
  let ?q3 = "\<lparr>buffered = 0xFD # ?ack2, incoming = [], written = [?T1], wresults = []\<rparr>"
  let ?q4 = "\<lparr>buffered = 0xFD # ?ack2, incoming = [], written = [?T1, ?T2], wresults = []\<rparr>"
  let ?q5 = "\<lparr>buffered = ?ack2, incoming = [], written = [?T1, ?T2], wresults = []\<rparr>"
  let ?q6 = "\<lparr>buffered = [], incoming = [], written = [?T1, ?T2], wresults = []\<rparr>"
  have w1: "port_Write (port_of (0xFD # ?ack1 @ 0xFD # ?ack2)) ?T1 = (None, ?q1)"
    by (simp add: port_Write_def port_of_def)
  have s1: "Read_buf ?q1 1 = (Inr [0xFD], ?q2)"
    by (simp add: Read_buf_def port_Read_def)
  have s2: "Read_buf ?q2 17 = (Inr ?ack1, ?q3)"
    by (simp add: Read_buf_def port_Read_def)
  have w2: "port_Write ?q3 ?T2 = (None, ?q4)"
    by (simp add: port_Write_def)
  have s3: "Read_buf ?q4 1 = (Inr [0xFD], ?q5)"
    by (simp add: Read_buf_def port_Read_def)
  have s4: "Read_buf ?q5 13 = (Inr ?ack2, ?q6)"
    by (simp add: Read_buf_def port_Read_def)
  from C5_transaction_failures [OF w1, where b = "[0xFD]" and ?p2.0 = ?q2 and ack = ?ack1
      and ?p3.0 = ?q3 and ?r2.0 = None and ?p4.0 = ?q4 and b' = "[0xFD]" and ?p5.0 = ?q5
      and ack' = ?ack2 and ?p6.0 = ?q6 and command = "[]"] s1 s2 w2 s3 s4
  have second: "sendCommand (port_of (0xFD # ?ack1 @ 0xFD # ?ack2)) []
      = (Some command_failed, ?q6)"
    by simp
  from first second show ?thesis by simp
qed

subsection \<open>C6: a first header byte not followed by the rest of the header\<close>

text \<open>
  C6, as the claim states it: when a byte 0xF4 is matched and the three bytes after it are
  not F3 F2 F1, exactly those three bytes are discarded and never looked at again. It does
  not hold when the read of the three bytes is short. Below, F4 and AA have arrived and a
  whole frame follows later, so the three bytes after the first F4 are AA F4 F3. The read
  delivers AA alone; only AA is discarded, and the header that starts inside the three
  bytes is found and the frame decoded. When the same bytes are all in the buffer, the
  three bytes are discarded and the frame is lost.
\<close>

theorem C6_header_mismatch_counterexample:
  "read_body_B \<lparr>buffered = [0xF4, 0xAA],
                 incoming = [Bytes [0xF4, 0xF3, 0xF2, 0xF1, 0x07, 0x00, 0x01, 0x00, 0x90, 0x0A,
                                    0x01, 0x14, 0x1E, 0xF8, 0xF7, 0xF6, 0xF5]],
                 written = [], wresults = []\<rparr>
     = ([], Inr \<lparr>buffered = [],
                  incoming = [Bytes [0xF4, 0xF3, 0xF2, 0xF1, 0x07, 0x00, 0x01, 0x00, 0x90, 0x0A,
                                     0x01, 0x14, 0x1E, 0xF8, 0xF7, 0xF6, 0xF5]],
                  written = [], wresults = []\<rparr>)
   \<and> read_B \<lparr>buffered = [0xF4, 0xAA],
              incoming = [Bytes [0xF4, 0xF3, 0xF2, 0xF1, 0x07, 0x00, 0x01, 0x00, 0x90, 0x0A,
                                 0x01, 0x14, 0x1E, 0xF8, 0xF7, 0xF6, 0xF5]],
              written = [], wresults = []\<rparr>
     = ([\<lparr>Alarm = False, Angle = 16, Distance = 10, Direction = 1, Speed = 20, SNR = 30\<rparr>],
        Failed EOF)
   \<and> read_A \<lparr>buffered = [0xF4, 0xAA],
              incoming = [Bytes [0xF4, 0xF3, 0xF2, 0xF1, 0x08, 0x00, 0x01, 0x00, 0x00, 0x90,
                                 0x0A, 0x01, 0x14, 0x1E, 0xF8, 0xF7, 0xF6, 0xF5]],
              written = [], wresults = []\<rparr>
     = ([\<lparr>Angle_A = 16, Distance_A = 10, Direction_A = 1, Speed_A = 20, SNR_A = 30\<rparr>],
        Failed EOF)
   \<and> read_B (port_of [0xF4, 0xAA, 0xF4, 0xF3, 0xF2, 0xF1, 0x07, 0x00, 0x01, 0x00, 0x90, 0x0A,
                      0x01, 0x14, 0x1E, 0xF8, 0xF7, 0xF6, 0xF5])
     = ([], Failed EOF)
   \<and> read_A (port_of [0xF4, 0xAA, 0xF4, 0xF3, 0xF2, 0xF1, 0x08, 0x00, 0x01, 0x00, 0x00, 0x90,
                      0x0A, 0x01, 0x14, 0x1E, 0xF8, 0xF7, 0xF6, 0xF5])
     = ([], Failed EOF)"
  by code_simp

text \<open>
  C6, amended. When a byte 0xF4 is matched and the block that the read of three bytes
  leaves in its buffer is not F3 F2 F1, the pass sends nothing, the bytes that this read
  took from the source are discarded and never looked at again, and scanning goes on with
  the next byte read. The read takes exactly the three bytes after 0xF4 when they have all
  arrived; when one or two of them have arrived it takes those, and the block never
  matches. Both files.
\<close>

theorem C6_header_mismatch:
  "(Read_buf p 1 = (Inr [0xf4], p1) \<and> Read_buf p1 3 = (Inr block, p2)
      \<and> block \<noteq> [0xf3, 0xf2, 0xf1] \<longrightarrow>
      read_body_B p = ([], Inr p2) \<and> read_body_A p = ([], Inr p2)
      \<and> read_B p = read_B p2 \<and> read_A p = read_A p2)
   \<and> ([b1, b2, b3] \<noteq> [0xf3, 0xf2, 0xf1] \<longrightarrow>
      read_body_B (q\<lparr>buffered := 0xf4 # b1 # b2 # b3 # rest\<rparr>) = ([], Inr (q\<lparr>buffered := rest\<rparr>))
      \<and> read_body_A (q\<lparr>buffered := 0xf4 # b1 # b2 # b3 # rest\<rparr>) = ([], Inr (q\<lparr>buffered := rest\<rparr>))
      \<and> read_B (q\<lparr>buffered := 0xf4 # b1 # b2 # b3 # rest\<rparr>) = read_B (q\<lparr>buffered := rest\<rparr>)
      \<and> read_A (q\<lparr>buffered := 0xf4 # b1 # b2 # b3 # rest\<rparr>) = read_A (q\<lparr>buffered := rest\<rparr>))
   \<and> (part \<noteq> [] \<and> length part < 3 \<longrightarrow>
      read_body_B (q\<lparr>buffered := 0xf4 # part\<rparr>) = ([], Inr (q\<lparr>buffered := []\<rparr>))
      \<and> read_body_A (q\<lparr>buffered := 0xf4 # part\<rparr>) = ([], Inr (q\<lparr>buffered := []\<rparr>)))"
proof (intro conjI impI)
  assume steps: "Read_buf p 1 = (Inr [0xf4], p1) \<and> Read_buf p1 3 = (Inr block, p2)
      \<and> block \<noteq> [0xf3, 0xf2, 0xf1]"
  then show b: "read_body_B p = ([], Inr p2)"
    by (simp add: read_body_B_def frameheader_def)
  from steps show a: "read_body_A p = ([], Inr p2)"
    by (simp add: read_body_A_def frameheader_def)
  from b show "read_B p = read_B p2" by (rule read_B_step)
  from a show "read_A p = read_A p2" by (rule read_A_step)
next
  assume ne: "[b1, b2, b3] \<noteq> [0xf3, 0xf2, 0xf1]"
  then show b: "read_body_B (q\<lparr>buffered := 0xf4 # b1 # b2 # b3 # rest\<rparr>) = ([], Inr (q\<lparr>buffered := rest\<rparr>))"
    by (auto simp: read_body_B_def Read_buf_buffered frameheader_def)
  from ne show a: "read_body_A (q\<lparr>buffered := 0xf4 # b1 # b2 # b3 # rest\<rparr>) = ([], Inr (q\<lparr>buffered := rest\<rparr>))"
    by (auto simp: read_body_A_def Read_buf_buffered frameheader_def)
  from b show "read_B (q\<lparr>buffered := 0xf4 # b1 # b2 # b3 # rest\<rparr>) = read_B (q\<lparr>buffered := rest\<rparr>)"
    by (rule read_B_step)
  from a show "read_A (q\<lparr>buffered := 0xf4 # b1 # b2 # b3 # rest\<rparr>) = read_A (q\<lparr>buffered := rest\<rparr>)"
    by (rule read_A_step)
next
  assume part: "part \<noteq> [] \<and> length part < 3"
  then have "last (take 3 part @ replicate (3 - length part) 0) = (0 :: byte)"
    by simp
  then have pad: "take 3 part @ replicate (3 - length part) 0 \<noteq> [0xf3, 0xf2, 0xf1 :: byte]"
    by auto
  from part pad show "read_body_B (q\<lparr>buffered := 0xf4 # part\<rparr>) = ([], Inr (q\<lparr>buffered := []\<rparr>))"
    by (simp add: read_body_B_def Read_buf_buffered Read_buf_some_buffered frameheader_def)
  from part pad show "read_body_A (q\<lparr>buffered := 0xf4 # part\<rparr>) = ([], Inr (q\<lparr>buffered := []\<rparr>))"
    by (simp add: read_body_A_def Read_buf_buffered Read_buf_some_buffered frameheader_def)
qed

text \<open>Three instances: the three bytes arrive after the 0xF4; the three bytes are in the
  buffer, and the header that starts at the second byte is lost; one byte only has
  arrived.\<close>

theorem C6_header_mismatch_witness:
  "Read_buf \<lparr>buffered = [0xf4], incoming = [Bytes [0xAA, 0xf4, 0xf3, 0xf2, 0xf1]],
             written = [], wresults = []\<rparr> 1
     = (Inr [0xf4], \<lparr>buffered = [], incoming = [Bytes [0xAA, 0xf4, 0xf3, 0xf2, 0xf1]],
                     written = [], wresults = []\<rparr>)
   \<and> Read_buf \<lparr>buffered = [], incoming = [Bytes [0xAA, 0xf4, 0xf3, 0xf2, 0xf1]],
               written = [], wresults = []\<rparr> 3
     = (Inr [0xAA, 0xf4, 0xf3], port_of [0xf2, 0xf1])
   \<and> [0xAA, 0xf4, 0xf3] \<noteq> [0xf3, 0xf2, 0xf1 :: byte]
   \<and> read_body_B \<lparr>buffered = [0xf4], incoming = [Bytes [0xAA, 0xf4, 0xf3, 0xf2, 0xf1]],
                   written = [], wresults = []\<rparr>
     = ([], Inr (port_of [0xf2, 0xf1]))
   \<and> read_body_A \<lparr>buffered = [0xf4], incoming = [Bytes [0xAA, 0xf4, 0xf3, 0xf2, 0xf1]],
                   written = [], wresults = []\<rparr>
     = ([], Inr (port_of [0xf2, 0xf1]))
   \<and> [0xf4, 0xf3, 0xf2] \<noteq> [0xf3, 0xf2, 0xf1 :: byte]
   \<and> read_body_B (port_of [0xf4, 0xf4, 0xf3, 0xf2, 0xf1, 7, 0, 1, 0, 0x90, 0x0A, 1, 0x14, 0x1E])
       = ([], Inr (port_of [0xf1, 7, 0, 1, 0, 0x90, 0x0A, 1, 0x14, 0x1E]))
   \<and> read_body_A (port_of [0xf4, 0xf4, 0xf3, 0xf2, 0xf1, 7, 0, 1, 0, 0x90, 0x0A, 1, 0x14, 0x1E])
       = ([], Inr (port_of [0xf1, 7, 0, 1, 0, 0x90, 0x0A, 1, 0x14, 0x1E]))
   \<and> read_body_B (port_of [0xf4, 0xAA]) = ([], Inr (port_of []))
   \<and> read_body_A (port_of [0xf4, 0xAA]) = ([], Inr (port_of []))"
proof -
  let ?p = "\<lparr>buffered = [0xf4], incoming = [Bytes [0xAA, 0xf4, 0xf3, 0xf2, 0xf1]],
             written = [], wresults = []\<rparr>"
  let ?p1 = "\<lparr>buffered = [], incoming = [Bytes [0xAA, 0xf4, 0xf3, 0xf2, 0xf1]],
              written = [], wresults = []\<rparr>"
  have r1: "Read_buf ?p 1 = (Inr [0xf4], ?p1)"
    by (simp add: Read_buf_def port_Read_def)
  have r2: "Read_buf ?p1 3 = (Inr [0xAA, 0xf4, 0xf3], port_of [0xf2, 0xf1])"
    by (simp add: Read_buf_def port_Read_def port_of_def)
  from r1 r2
    C6_header_mismatch [where p = ?p and ?p1.0 = ?p1 and block = "[0xAA, 0xf4, 0xf3]"
      and ?p2.0 = "port_of [0xf2, 0xf1]"]
  have g: "read_body_B ?p = ([], Inr (port_of [0xf2, 0xf1]))
      \<and> read_body_A ?p = ([], Inr (port_of [0xf2, 0xf1]))"
    by simp
  from C6_header_mismatch [where ?b1.0 = "0xf4" and ?b2.0 = "0xf3" and ?b3.0 = "0xf2"
      and q = "port_of []" and rest = "[0xf1, 7, 0, 1, 0, 0x90, 0x0A, 1, 0x14, 0x1E]"]
  have f: "read_body_B (port_of [0xf4, 0xf4, 0xf3, 0xf2, 0xf1, 7, 0, 1, 0, 0x90, 0x0A, 1, 0x14, 0x1E])
       = ([], Inr (port_of [0xf1, 7, 0, 1, 0, 0x90, 0x0A, 1, 0x14, 0x1E]))
   \<and> read_body_A (port_of [0xf4, 0xf4, 0xf3, 0xf2, 0xf1, 7, 0, 1, 0, 0x90, 0x0A, 1, 0x14, 0x1E])
       = ([], Inr (port_of [0xf1, 7, 0, 1, 0, 0x90, 0x0A, 1, 0x14, 0x1E]))"
    by (simp add: port_of_def)
  from C6_header_mismatch [where q = "port_of []" and part = "[0xAA]"]
  have s: "read_body_B (port_of [0xf4, 0xAA]) = ([], Inr (port_of []))
      \<and> read_body_A (port_of [0xf4, 0xAA]) = ([], Inr (port_of []))"
    by (simp add: port_of_def)
  from r1 r2 g f s show ?thesis by simp
qed

subsection \<open>C7: the frame of length zero\<close>

text \<open>
  C7, as the claim states it: for every frame whose decoded frameLength is 0 the decoder
  sends no target, consumes exactly the next four bytes, the footer, and returns to header
  scanning at the next frame's header. It does not hold when a read is short. In the first
  two lines below two bytes of the footer have arrived: the read of four bytes takes these
  two, and the next pass starts inside the footer. In the third a frame with the length
  bytes 00 02 has its second length byte still to come: the length decodes as 0, and the
  four bytes consumed are that length byte and three bytes of the payload.
\<close>

theorem C7_zero_length_frame_counterexample:
  "read_body_B \<lparr>buffered = [0xF4, 0xF3, 0xF2, 0xF1, 0x00, 0x00, 0xF8, 0xF7],
                 incoming = [Bytes [0xF6, 0xF5, 0xF4, 0xF3, 0xF2, 0xF1]],
                 written = [], wresults = []\<rparr>
     = ([], Inr \<lparr>buffered = [], incoming = [Bytes [0xF6, 0xF5, 0xF4, 0xF3, 0xF2, 0xF1]],
                  written = [], wresults = []\<rparr>)
   \<and> read_body_A \<lparr>buffered = [0xF4, 0xF3, 0xF2, 0xF1, 0x00, 0x00, 0xF8, 0xF7],
                   incoming = [Bytes [0xF6, 0xF5, 0xF4, 0xF3, 0xF2, 0xF1]],
                   written = [], wresults = []\<rparr>
     = ([], Inr \<lparr>buffered = [], incoming = [Bytes [0xF6, 0xF5, 0xF4, 0xF3, 0xF2, 0xF1]],
                  written = [], wresults = []\<rparr>)
   \<and> read_body_A \<lparr>buffered = [0xF4, 0xF3, 0xF2, 0xF1, 0x00],
                   incoming = [Bytes [0x02, 0x55, 0x00, 0x00, 0x90, 0x0A, 0x01]],
                   written = [], wresults = []\<rparr>
     = ([], Inr \<lparr>buffered = [0x90, 0x0A, 0x01], incoming = [], written = [],
                  wresults = []\<rparr>)"
  by code_simp

text \<open>
  C7, amended. When the two bytes of the length buffer decode to frameLength 0, the pass
  sends no target, reads once for four bytes, discards what that read delivers, and returns
  to header scanning. When the header, the length and the four bytes after it have all
  arrived, these four bytes, the place of the footer, are exactly what is consumed, and
  the next pass starts at the byte after them, where the next frame's header starts; when
  fewer than four bytes have arrived after the length, those are consumed. Both files.
\<close>

theorem C7_zero_length_frame:
  "(Read_buf p 1 = (Inr [0xf4], p1) \<and> Read_buf p1 3 = (Inr [0xf3, 0xf2, 0xf1], p2)
      \<and> Read_buf p2 2 = (Inr [lo, hi], p3) \<and> push_bit 8 (unat hi) OR unat lo = 0
      \<and> Read_buf p3 4 = (Inr footer, p4) \<longrightarrow>
      read_body_B p = ([], Inr p4) \<and> read_body_A p = ([], Inr p4)
      \<and> read_B p = read_B p4 \<and> read_A p = read_A p4)
   \<and> (push_bit 8 (unat hi) OR unat lo = 0 \<longrightarrow>
      read_body_B (q\<lparr>buffered := 0xf4 # 0xf3 # 0xf2 # 0xf1 # lo # hi # f1 # f2 # f3 # f4 # rest\<rparr>)
        = ([], Inr (q\<lparr>buffered := rest\<rparr>))
      \<and> read_body_A (q\<lparr>buffered := 0xf4 # 0xf3 # 0xf2 # 0xf1 # lo # hi # f1 # f2 # f3 # f4 # rest\<rparr>)
        = ([], Inr (q\<lparr>buffered := rest\<rparr>))
      \<and> read_B (q\<lparr>buffered := 0xf4 # 0xf3 # 0xf2 # 0xf1 # lo # hi # f1 # f2 # f3 # f4 # rest\<rparr>)
        = read_B (q\<lparr>buffered := rest\<rparr>)
      \<and> read_A (q\<lparr>buffered := 0xf4 # 0xf3 # 0xf2 # 0xf1 # lo # hi # f1 # f2 # f3 # f4 # rest\<rparr>)
        = read_A (q\<lparr>buffered := rest\<rparr>))
   \<and> (push_bit 8 (unat hi) OR unat lo = 0 \<and> part \<noteq> [] \<and> length part < 4 \<longrightarrow>
      read_body_B (q\<lparr>buffered := 0xf4 # 0xf3 # 0xf2 # 0xf1 # lo # hi # part\<rparr>)
        = ([], Inr (q\<lparr>buffered := []\<rparr>))
      \<and> read_body_A (q\<lparr>buffered := 0xf4 # 0xf3 # 0xf2 # 0xf1 # lo # hi # part\<rparr>)
        = ([], Inr (q\<lparr>buffered := []\<rparr>)))"
proof (intro conjI impI)
  assume steps: "Read_buf p 1 = (Inr [0xf4], p1) \<and> Read_buf p1 3 = (Inr [0xf3, 0xf2, 0xf1], p2)
      \<and> Read_buf p2 2 = (Inr [lo, hi], p3) \<and> push_bit 8 (unat hi) OR unat lo = 0
      \<and> Read_buf p3 4 = (Inr footer, p4)"
  then show b: "read_body_B p = ([], Inr p4)"
    by (simp add: read_body_B_def frameheader_def)
  from steps show a: "read_body_A p = ([], Inr p4)"
    by (simp add: read_body_A_def frameheader_def)
  from b show "read_B p = read_B p4" by (rule read_B_step)
  from a show "read_A p = read_A p4" by (rule read_A_step)
next
  assume z: "push_bit 8 (unat hi) OR unat lo = 0"
  then show b: "read_body_B (q\<lparr>buffered := 0xf4 # 0xf3 # 0xf2 # 0xf1 # lo # hi # f1 # f2 # f3 # f4 # rest\<rparr>)
        = ([], Inr (q\<lparr>buffered := rest\<rparr>))"
    by (simp add: read_body_B_def Read_buf_buffered frameheader_def)
  from z show a: "read_body_A (q\<lparr>buffered := 0xf4 # 0xf3 # 0xf2 # 0xf1 # lo # hi # f1 # f2 # f3 # f4 # rest\<rparr>)
        = ([], Inr (q\<lparr>buffered := rest\<rparr>))"
    by (simp add: read_body_A_def Read_buf_buffered frameheader_def)
  from b show "read_B (q\<lparr>buffered := 0xf4 # 0xf3 # 0xf2 # 0xf1 # lo # hi # f1 # f2 # f3 # f4 # rest\<rparr>)
        = read_B (q\<lparr>buffered := rest\<rparr>)"
    by (rule read_B_step)
  from a show "read_A (q\<lparr>buffered := 0xf4 # 0xf3 # 0xf2 # 0xf1 # lo # hi # f1 # f2 # f3 # f4 # rest\<rparr>)
        = read_A (q\<lparr>buffered := rest\<rparr>)"
    by (rule read_A_step)
next
  assume part: "push_bit 8 (unat hi) OR unat lo = 0 \<and> part \<noteq> [] \<and> length part < 4"
  then show "read_body_B (q\<lparr>buffered := 0xf4 # 0xf3 # 0xf2 # 0xf1 # lo # hi # part\<rparr>)
        = ([], Inr (q\<lparr>buffered := []\<rparr>))"
    by (simp add: read_body_B_def Read_buf_buffered Read_buf_some_buffered frameheader_def)
  from part show "read_body_A (q\<lparr>buffered := 0xf4 # 0xf3 # 0xf2 # 0xf1 # lo # hi # part\<rparr>)
        = ([], Inr (q\<lparr>buffered := []\<rparr>))"
    by (simp add: read_body_A_def Read_buf_buffered Read_buf_some_buffered frameheader_def)
qed

text \<open>Three instances: the length field split as above; the whole frame in the buffer, with
  the first two bytes of a next header after it; the footer split.\<close>

theorem C7_zero_length_frame_witness:
  "push_bit 8 (unat (0 :: byte)) OR unat (0 :: byte) = 0
   \<and> Read_buf \<lparr>buffered = [0xf4, 0xf3, 0xf2, 0xf1, 0x00],
               incoming = [Bytes [0x02, 0x55, 0x00, 0x00, 0x90, 0x0A, 0x01]],
               written = [], wresults = []\<rparr> 1
     = (Inr [0xf4],
        \<lparr>buffered = [0xf3, 0xf2, 0xf1, 0x00],
         incoming = [Bytes [0x02, 0x55, 0x00, 0x00, 0x90, 0x0A, 0x01]],
         written = [], wresults = []\<rparr>)
   \<and> Read_buf \<lparr>buffered = [0xf3, 0xf2, 0xf1, 0x00],
               incoming = [Bytes [0x02, 0x55, 0x00, 0x00, 0x90, 0x0A, 0x01]],
               written = [], wresults = []\<rparr> 3
     = (Inr [0xf3, 0xf2, 0xf1],
        \<lparr>buffered = [0x00], incoming = [Bytes [0x02, 0x55, 0x00, 0x00, 0x90, 0x0A, 0x01]],
         written = [], wresults = []\<rparr>)
   \<and> Read_buf \<lparr>buffered = [0x00], incoming = [Bytes [0x02, 0x55, 0x00, 0x00, 0x90, 0x0A, 0x01]],
               written = [], wresults = []\<rparr> 2
     = (Inr [0x00, 0x00],
        \<lparr>buffered = [], incoming = [Bytes [0x02, 0x55, 0x00, 0x00, 0x90, 0x0A, 0x01]],
         written = [], wresults = []\<rparr>)
   \<and> Read_buf \<lparr>buffered = [], incoming = [Bytes [0x02, 0x55, 0x00, 0x00, 0x90, 0x0A, 0x01]],
               written = [], wresults = []\<rparr> 4
     = (Inr [0x02, 0x55, 0x00, 0x00], port_of [0x90, 0x0A, 0x01])
   \<and> read_body_B \<lparr>buffered = [0xf4, 0xf3, 0xf2, 0xf1, 0x00],
                   incoming = [Bytes [0x02, 0x55, 0x00, 0x00, 0x90, 0x0A, 0x01]],
                   written = [], wresults = []\<rparr>
     = ([], Inr (port_of [0x90, 0x0A, 0x01]))
   \<and> read_body_A \<lparr>buffered = [0xf4, 0xf3, 0xf2, 0xf1, 0x00],
                   incoming = [Bytes [0x02, 0x55, 0x00, 0x00, 0x90, 0x0A, 0x01]],
                   written = [], wresults = []\<rparr>
     = ([], Inr (port_of [0x90, 0x0A, 0x01]))
   \<and> read_body_B (port_of [0xf4, 0xf3, 0xf2, 0xf1, 0, 0, 0xf8, 0xf7, 0xf6, 0xf5, 0xf4, 0xf3])
       = ([], Inr (port_of [0xf4, 0xf3]))
   \<and> read_body_A (port_of [0xf4, 0xf3, 0xf2, 0xf1, 0, 0, 0xf8, 0xf7, 0xf6, 0xf5, 0xf4, 0xf3])
       = ([], Inr (port_of [0xf4, 0xf3]))
   \<and> read_body_B (port_of [0xf4, 0xf3, 0xf2, 0xf1, 0, 0, 0xf8, 0xf7]) = ([], Inr (port_of []))
   \<and> read_body_A (port_of [0xf4, 0xf3, 0xf2, 0xf1, 0, 0, 0xf8, 0xf7]) = ([], Inr (port_of []))"
proof -
  let ?late = "[Bytes [0x02, 0x55, 0x00, 0x00, 0x90, 0x0A, 0x01]]"
  let ?p = "\<lparr>buffered = [0xf4, 0xf3, 0xf2, 0xf1, 0x00], incoming = ?late,
             written = [], wresults = []\<rparr>"
  let ?p1 = "\<lparr>buffered = [0xf3, 0xf2, 0xf1, 0x00], incoming = ?late,
              written = [], wresults = []\<rparr>"
  let ?p2 = "\<lparr>buffered = [0x00], incoming = ?late, written = [], wresults = []\<rparr>"
  let ?p3 = "\<lparr>buffered = [], incoming = ?late, written = [], wresults = []\<rparr>"
  have r1: "Read_buf ?p 1 = (Inr [0xf4], ?p1)"
    by (simp add: Read_buf_def port_Read_def)
  have r2: "Read_buf ?p1 3 = (Inr [0xf3, 0xf2, 0xf1], ?p2)"
    by (simp add: Read_buf_def port_Read_def)
  have r3: "Read_buf ?p2 2 = (Inr [0x00, 0x00], ?p3)"
    by (simp add: Read_buf_def port_Read_def)
  have r4: "Read_buf ?p3 4 = (Inr [0x02, 0x55, 0x00, 0x00], port_of [0x90, 0x0A, 0x01])"
    by (simp add: Read_buf_def port_Read_def port_of_def)
  have z: "push_bit 8 (unat (0 :: byte)) OR unat (0 :: byte) = 0" by simp
  from r1 r2 r3 r4 z
    C7_zero_length_frame [where p = ?p and ?p1.0 = ?p1 and ?p2.0 = ?p2 and ?p3.0 = ?p3
      and lo = 0 and hi = 0 and footer = "[0x02, 0x55, 0x00, 0x00]"
      and ?p4.0 = "port_of [0x90, 0x0A, 0x01]"]
  have g: "read_body_B ?p = ([], Inr (port_of [0x90, 0x0A, 0x01]))
      \<and> read_body_A ?p = ([], Inr (port_of [0x90, 0x0A, 0x01]))"
    by simp
  from C7_zero_length_frame [where hi = 0 and lo = 0 and q = "port_of []" and ?f1.0 = "0xf8"
      and ?f2.0 = "0xf7" and ?f3.0 = "0xf6" and ?f4.0 = "0xf5" and rest = "[0xf4, 0xf3]"]
  have f: "read_body_B (port_of [0xf4, 0xf3, 0xf2, 0xf1, 0, 0, 0xf8, 0xf7, 0xf6, 0xf5, 0xf4, 0xf3])
       = ([], Inr (port_of [0xf4, 0xf3]))
   \<and> read_body_A (port_of [0xf4, 0xf3, 0xf2, 0xf1, 0, 0, 0xf8, 0xf7, 0xf6, 0xf5, 0xf4, 0xf3])
       = ([], Inr (port_of [0xf4, 0xf3]))"
    by (simp add: port_of_def)
  from C7_zero_length_frame [where hi = 0 and lo = 0 and q = "port_of []"
      and part = "[0xf8, 0xf7]"]
  have s: "read_body_B (port_of [0xf4, 0xf3, 0xf2, 0xf1, 0, 0, 0xf8, 0xf7]) = ([], Inr (port_of []))
   \<and> read_body_A (port_of [0xf4, 0xf3, 0xf2, 0xf1, 0, 0, 0xf8, 0xf7]) = ([], Inr (port_of []))"
    by (simp add: port_of_def)
  from r1 r2 r3 r4 z g f s show ?thesis by simp
qed

subsection \<open>C8: the footer after the target block\<close>




subsection \<open>C9: the parameter of \<^verbatim>\<open>sendCommand\<close>\<close>

text \<open>
  C9. The argument \<open>command\<close> has no effect: for any two values of it \<^verbatim>\<open>sendCommand\<close> sends
  the same error, or none, and leaves the port in the same state; and what it has written
  when it returns is the first fixed frame, or the first and the second.
\<close>

theorem C9_command_unused:
  "sendCommand p command = sendCommand p command'
   \<and> (written (snd (sendCommand p command))
         = written p @ [[0xfd, 0xfc, 0xfb, 0xfa, 0x04, 0x00, 0xff, 0x00, 0x01, 0x00,
                         0x04, 0x03, 0x02, 0x01]]
      \<or> written (snd (sendCommand p command))
         = written p @ [[0xfd, 0xfc, 0xfb, 0xfa, 0x04, 0x00, 0xff, 0x00, 0x01, 0x00,
                         0x04, 0x03, 0x02, 0x01],
                        [0xfd, 0xfc, 0xfb, 0xfa, 0x02, 0x00, 0xfe, 0x00,
                         0x04, 0x03, 0x02, 0x01]])"
proof
  show "sendCommand p command = sendCommand p command'"
    by (simp add: sendCommand_def)
  show "written (snd (sendCommand p command))
         = written p @ [[0xfd, 0xfc, 0xfb, 0xfa, 0x04, 0x00, 0xff, 0x00, 0x01, 0x00,
                         0x04, 0x03, 0x02, 0x01]]
      \<or> written (snd (sendCommand p command))
         = written p @ [[0xfd, 0xfc, 0xfb, 0xfa, 0x04, 0x00, 0xff, 0x00, 0x01, 0x00,
                         0x04, 0x03, 0x02, 0x01],
                        [0xfd, 0xfc, 0xfb, 0xfa, 0x02, 0x00, 0xfe, 0x00,
                         0x04, 0x03, 0x02, 0x01]]"
    by (auto simp: sendCommand_def Let_def split: prod.splits sum.splits
        dest!: Read_buf_written port_Write_written)
qed

text \<open>An instance: two different arguments, the acknowledgements the device sends in the
  buffer.\<close>

theorem C9_command_unused_witness:
  "sendCommand (port_of [0xFD, 0xFC, 0xFB, 0xFA, 0x08, 0x00, 0xFF, 0x01, 0x00, 0x00, 0x01,
                         0x00, 0x40, 0x00, 0x04, 0x03, 0x02, 0x01,
                         0xFD, 0xFC, 0xFB, 0xFA, 0x04, 0x00, 0xFE, 0x01, 0x00, 0x00, 0x04,
                         0x03, 0x02, 0x01]) [0x01]
     = sendCommand (port_of [0xFD, 0xFC, 0xFB, 0xFA, 0x08, 0x00, 0xFF, 0x01, 0x00, 0x00, 0x01,
                             0x00, 0x40, 0x00, 0x04, 0x03, 0x02, 0x01,
                             0xFD, 0xFC, 0xFB, 0xFA, 0x04, 0x00, 0xFE, 0x01, 0x00, 0x00, 0x04,
                             0x03, 0x02, 0x01]) [0xFF, 0x00]
   \<and> sendCommand (port_of [0xFD, 0xFC, 0xFB, 0xFA, 0x08, 0x00, 0xFF, 0x01, 0x00, 0x00, 0x01,
                           0x00, 0x40, 0x00, 0x04, 0x03, 0x02, 0x01,
                           0xFD, 0xFC, 0xFB, 0xFA, 0x04, 0x00, 0xFE, 0x01, 0x00, 0x00, 0x04,
                           0x03, 0x02, 0x01]) [0x01]
     = (None,
        \<lparr>buffered = [], incoming = [],
         written = [[0xfd, 0xfc, 0xfb, 0xfa, 0x04, 0x00, 0xff, 0x00, 0x01, 0x00, 0x04, 0x03,
                     0x02, 0x01],
                    [0xfd, 0xfc, 0xfb, 0xfa, 0x02, 0x00, 0xfe, 0x00, 0x04, 0x03, 0x02, 0x01]],
         wresults = []\<rparr>)"
proof -
  have "sendCommand (port_of [0xFD, 0xFC, 0xFB, 0xFA, 0x08, 0x00, 0xFF, 0x01, 0x00, 0x00, 0x01,
                           0x00, 0x40, 0x00, 0x04, 0x03, 0x02, 0x01,
                           0xFD, 0xFC, 0xFB, 0xFA, 0x04, 0x00, 0xFE, 0x01, 0x00, 0x00, 0x04,
                           0x03, 0x02, 0x01]) [0x01]
     = (None,
        \<lparr>buffered = [], incoming = [],
         written = [[0xfd, 0xfc, 0xfb, 0xfa, 0x04, 0x00, 0xff, 0x00, 0x01, 0x00, 0x04, 0x03,
                     0x02, 0x01],
                    [0xfd, 0xfc, 0xfb, 0xfa, 0x02, 0x00, 0xfe, 0x00, 0x04, 0x03, 0x02, 0x01]],
         wresults = []\<rparr>)"
    by code_simp
  then show ?thesis
    using C9_command_unused [where p = "port_of [0xFD, 0xFC, 0xFB, 0xFA, 0x08, 0x00, 0xFF, 0x01,
        0x00, 0x00, 0x01, 0x00, 0x40, 0x00, 0x04, 0x03, 0x02, 0x01,
        0xFD, 0xFC, 0xFB, 0xFA, 0x04, 0x00, 0xFE, 0x01, 0x00, 0x00, 0x04, 0x03, 0x02, 0x01]"
        and command = "[0x01]" and command' = "[0xFF, 0x00]"]
    by simp
qed

subsection \<open>C10: the first byte of a target record in src/unnamed/\<^verbatim>\<open>part_000\<close>\<close>

text \<open>
  C10, as the claim states it: for every well-formed frame, changing the byte at offset 0
  of a target record yields the same sequence of targets. It does not hold when the read of
  the payload is short. Below, a frame of two targets arrives in two batches, the second
  of which starts inside the first record. The payload read delivers the first batch; after
  the footer read has taken four bytes of the second, the header scan comes to the first
  byte of the second record. With the value 00 there the loop sends two targets and ends with
  the end of the input; with F4, and the same bytes everywhere else, the scan takes it for
  a header, and the loop sends a third target and panics.
\<close>

theorem C10_record_byte_0_counterexample:
  "read_A \<lparr>buffered = [0xF4, 0xF3, 0xF2, 0xF1, 0x0E, 0x00, 0x02, 0x00, 0x00, 0x90],
            incoming = [Bytes [0x0A, 0x01, 0x14, 0x1E, 0x00, 0xF3, 0xF2, 0xF1, 0x08, 0x00,
                               0xF8, 0xF7, 0xF6, 0xF5]],
            written = [], wresults = []\<rparr>
     = ([\<lparr>Angle_A = 16, Distance_A = 0, Direction_A = 0, Speed_A = 0, SNR_A = 0\<rparr>,
         \<lparr>Angle_A = - 128, Distance_A = 0, Direction_A = 0, Speed_A = 0, SNR_A = 0\<rparr>],
        Failed EOF)
   \<and> read_A \<lparr>buffered = [0xF4, 0xF3, 0xF2, 0xF1, 0x0E, 0x00, 0x02, 0x00, 0x00, 0x90],
              incoming = [Bytes [0x0A, 0x01, 0x14, 0x1E, 0xF4, 0xF3, 0xF2, 0xF1, 0x08, 0x00,
                                 0xF8, 0xF7, 0xF6, 0xF5]],
              written = [], wresults = []\<rparr>
     = ([\<lparr>Angle_A = 16, Distance_A = 0, Direction_A = 0, Speed_A = 0, SNR_A = 0\<rparr>,
         \<lparr>Angle_A = - 128, Distance_A = 0, Direction_A = 0, Speed_A = 0, SNR_A = 0\<rparr>,
         \<lparr>Angle_A = 117, Distance_A = 0, Direction_A = 0, Speed_A = 0, SNR_A = 0\<rparr>],
        Panic)"
  by code_simp

text \<open>
  C10, amended. In the file that skips one alarm byte per frame, the target records start
  at offset 2 of the payload buffer and are six bytes apart, and the target loop never
  reads the byte at offset 0 of a record: payload buffers of one length that agree
  everywhere but at the offsets 2, 8, 14, ... give the same targets. So two passes whose
  payload reads deliver such buffers and leave the same port send the same targets and go
  on the same way, as does the whole loop; this is so for every frame that is whole in
  the input buffer when the pass starts. Record bytes that the payload read did not deliver
  stay in the source for the header scan, which reads every byte.
\<close>

theorem C10_record_byte_0_unread:
  "(length buf' = length buf \<and> (\<forall>j<length buf. j mod 6 \<noteq> 2 \<longrightarrow> buf' ! j = buf ! j) \<longrightarrow>
      targets_A n (drop 2 buf') = targets_A n (drop 2 buf)
      \<and> (Read_buf p 1 = (Inr [0xf4], p1) \<and> Read_buf p1 3 = (Inr [0xf3, 0xf2, 0xf1], p2)
           \<and> Read_buf p2 2 = (Inr [lo, hi], p3) \<and> push_bit 8 (unat hi) OR unat lo \<noteq> 0
           \<and> Read_buf p3 (push_bit 8 (unat hi) OR unat lo) = (Inr buf, p4)
           \<and> Read_buf p' 1 = (Inr [0xf4], p1') \<and> Read_buf p1' 3 = (Inr [0xf3, 0xf2, 0xf1], p2')
           \<and> Read_buf p2' 2 = (Inr [lo, hi], p3')
           \<and> Read_buf p3' (push_bit 8 (unat hi) OR unat lo) = (Inr buf', p4) \<longrightarrow>
           read_body_A p' = read_body_A p \<and> read_A p' = read_A p))
   \<and> (push_bit 8 (unat hi') OR unat lo' = length payload \<and> payload \<noteq> []
        \<and> length payload' = length payload
        \<and> (\<forall>j<length payload. j mod 6 \<noteq> 2 \<longrightarrow> payload' ! j = payload ! j) \<longrightarrow>
      read_body_A (q\<lparr>buffered := 0xf4 # 0xf3 # 0xf2 # 0xf1 # lo' # hi' # payload' @ rest\<rparr>)
        = read_body_A (q\<lparr>buffered := 0xf4 # 0xf3 # 0xf2 # 0xf1 # lo' # hi' # payload @ rest\<rparr>)
      \<and> read_A (q\<lparr>buffered := 0xf4 # 0xf3 # 0xf2 # 0xf1 # lo' # hi' # payload' @ rest\<rparr>)
        = read_A (q\<lparr>buffered := 0xf4 # 0xf3 # 0xf2 # 0xf1 # lo' # hi' # payload @ rest\<rparr>))"
proof (intro conjI impI)
  assume ag: "length buf' = length buf \<and> (\<forall>j<length buf. j mod 6 \<noteq> 2 \<longrightarrow> buf' ! j = buf ! j)"
  then have same_length: "length buf' = length buf"
    and agree: "\<forall>j<length buf. j mod 6 \<noteq> 2 \<longrightarrow> buf' ! j = buf ! j"
    by simp_all
  show "targets_A n (drop 2 buf') = targets_A n (drop 2 buf)"
    using same_length agree by (rule targets_A_record_byte_0)
  assume steps: "Read_buf p 1 = (Inr [0xf4], p1) \<and> Read_buf p1 3 = (Inr [0xf3, 0xf2, 0xf1], p2)
           \<and> Read_buf p2 2 = (Inr [lo, hi], p3) \<and> push_bit 8 (unat hi) OR unat lo \<noteq> 0
           \<and> Read_buf p3 (push_bit 8 (unat hi) OR unat lo) = (Inr buf, p4)
           \<and> Read_buf p' 1 = (Inr [0xf4], p1') \<and> Read_buf p1' 3 = (Inr [0xf3, 0xf2, 0xf1], p2')
           \<and> Read_buf p2' 2 = (Inr [lo, hi], p3')
           \<and> Read_buf p3' (push_bit 8 (unat hi) OR unat lo) = (Inr buf', p4)"
  then have s1: "Read_buf p 1 = (Inr [0xf4], p1)"
    and s2: "Read_buf p1 3 = (Inr [0xf3, 0xf2, 0xf1], p2)"
    and s3: "Read_buf p2 2 = (Inr [lo, hi], p3)"
    and s4: "push_bit 8 (unat hi) OR unat lo \<noteq> 0"
    and s5: "Read_buf p3 (push_bit 8 (unat hi) OR unat lo) = (Inr buf, p4)"
    and t1: "Read_buf p' 1 = (Inr [0xf4], p1')"
    and t2: "Read_buf p1' 3 = (Inr [0xf3, 0xf2, 0xf1], p2')"
    and t3: "Read_buf p2' 2 = (Inr [lo, hi], p3')"
    and t5: "Read_buf p3' (push_bit 8 (unat hi) OR unat lo) = (Inr buf', p4)"
    by simp_all
  from s5 s4 have "buf \<noteq> []" by (auto dest: Read_buf_length)
  with agree have count: "buf' ! 0 = buf ! 0"
    by (simp add: length_greater_0_conv [symmetric] del: length_greater_0_conv)
  show body: "read_body_A p' = read_body_A p"
    using same_length
    by (simp add: body_A_steps [OF s1 s2 s3 s4 s5] body_A_steps [OF t1 t2 t3 s4 t5] count
        targets_A_record_byte_0 [OF same_length agree] slice_from_def)
  from body show "read_A p' = read_A p" by (rule read_A_cong)
next
  assume fr: "push_bit 8 (unat hi') OR unat lo' = length payload \<and> payload \<noteq> []
        \<and> length payload' = length payload
        \<and> (\<forall>j<length payload. j mod 6 \<noteq> 2 \<longrightarrow> payload' ! j = payload ! j)"
  then have len: "push_bit 8 (unat hi') OR unat lo' = length payload" and ne: "payload \<noteq> []"
    and same_length: "length payload' = length payload"
    and agree: "\<forall>j<length payload. j mod 6 \<noteq> 2 \<longrightarrow> payload' ! j = payload ! j"
    by simp_all
  have ne': "payload' \<noteq> []" and len': "push_bit 8 (unat hi') OR unat lo' = length payload'"
    using ne len same_length by auto
  have count: "payload' ! 0 = payload ! 0"
    using agree ne by (simp add: length_greater_0_conv [symmetric] del: length_greater_0_conv)
  show body: "read_body_A (q\<lparr>buffered := 0xf4 # 0xf3 # 0xf2 # 0xf1 # lo' # hi' # payload' @ rest\<rparr>)
           = read_body_A (q\<lparr>buffered := 0xf4 # 0xf3 # 0xf2 # 0xf1 # lo' # hi' # payload @ rest\<rparr>)"
    using same_length
    by (simp add: body_A_frame [OF len ne] body_A_frame [OF len' ne'] count
        targets_A_record_byte_0 [OF same_length agree] slice_from_def)
  from body show "read_A (q\<lparr>buffered := 0xf4 # 0xf3 # 0xf2 # 0xf1 # lo' # hi' # payload' @ rest\<rparr>)
           = read_A (q\<lparr>buffered := 0xf4 # 0xf3 # 0xf2 # 0xf1 # lo' # hi' # payload @ rest\<rparr>)"
    by (rule read_A_cong)
qed

text \<open>Instances: the frame of the example above, whole in the buffer, with F4 and with 00 as
  the first byte of its second record; and the same two frames arriving in one batch after
  the header and the length.\<close>

theorem C10_record_byte_0_unread_witness:
  "length [0x02, 0x00, 0x00, 0x90, 0x0A, 0x01, 0x14, 0x1E, 0xF4, 0xF3, 0xF2, 0xF1, 0x08,
           0x00 :: byte]
     = length [0x02, 0x00, 0x00, 0x90, 0x0A, 0x01, 0x14, 0x1E, 0x00, 0xF3, 0xF2, 0xF1, 0x08,
               0x00 :: byte]
   \<and> push_bit 8 (unat (0 :: byte)) OR unat (0x0E :: byte)
     = length [0x02, 0x00, 0x00, 0x90, 0x0A, 0x01, 0x14, 0x1E, 0x00, 0xF3, 0xF2, 0xF1, 0x08,
               0x00 :: byte]
   \<and> read_A (port_of [0xF4, 0xF3, 0xF2, 0xF1, 0x0E, 0x00, 0x02, 0x00, 0x00, 0x90, 0x0A, 0x01,
                      0x14, 0x1E, 0xF4, 0xF3, 0xF2, 0xF1, 0x08, 0x00, 0xF8, 0xF7, 0xF6, 0xF5])
     = read_A (port_of [0xF4, 0xF3, 0xF2, 0xF1, 0x0E, 0x00, 0x02, 0x00, 0x00, 0x90, 0x0A, 0x01,
                        0x14, 0x1E, 0x00, 0xF3, 0xF2, 0xF1, 0x08, 0x00, 0xF8, 0xF7, 0xF6, 0xF5])
   \<and> read_A (port_of [0xF4, 0xF3, 0xF2, 0xF1, 0x0E, 0x00, 0x02, 0x00, 0x00, 0x90, 0x0A, 0x01,
                      0x14, 0x1E, 0x00, 0xF3, 0xF2, 0xF1, 0x08, 0x00, 0xF8, 0xF7, 0xF6, 0xF5])
     = ([\<lparr>Angle_A = 16, Distance_A = 10, Direction_A = 1, Speed_A = 20, SNR_A = 30\<rparr>,
         \<lparr>Angle_A = 115, Distance_A = 242, Direction_A = 241, Speed_A = 8, SNR_A = 0\<rparr>],
        Failed EOF)
   \<and> read_body_A \<lparr>buffered = [0xF4, 0xF3, 0xF2, 0xF1, 0x0E, 0x00],
                   incoming = [Bytes [0x02, 0x00, 0x00, 0x90, 0x0A, 0x01, 0x14, 0x1E, 0xF4, 0xF3,
                                      0xF2, 0xF1, 0x08, 0x00, 0xF8, 0xF7, 0xF6, 0xF5]],
                   written = [], wresults = []\<rparr>
     = read_body_A \<lparr>buffered = [0xF4, 0xF3, 0xF2, 0xF1, 0x0E, 0x00],
                     incoming = [Bytes [0x02, 0x00, 0x00, 0x90, 0x0A, 0x01, 0x14, 0x1E, 0x00, 0xF3,
                                        0xF2, 0xF1, 0x08, 0x00, 0xF8, 0xF7, 0xF6, 0xF5]],
                     written = [], wresults = []\<rparr>"
proof -
  let ?pl = "[0x02, 0x00, 0x00, 0x90, 0x0A, 0x01, 0x14, 0x1E, 0x00, 0xF3, 0xF2, 0xF1, 0x08,
              0x00 :: byte]"
  let ?pl' = "[0x02, 0x00, 0x00, 0x90, 0x0A, 0x01, 0x14, 0x1E, 0xF4, 0xF3, 0xF2, 0xF1, 0x08,
               0x00 :: byte]"
  have agree: "\<forall>j<length ?pl. j mod 6 \<noteq> 2 \<longrightarrow> ?pl' ! j = ?pl ! j"
  proof (intro allI impI)
    fix j :: nat
    assume "j mod 6 \<noteq> 2"
    then have "j \<noteq> 8" by auto
    then show "?pl' ! j = ?pl ! j" by (simp add: nth_Cons')
  qed
  have n: "push_bit 8 (unat (0 :: byte)) OR unat (0x0E :: byte) = 14"
    by simp
  from agree n
    C10_record_byte_0_unread [where hi' = 0 and lo' = "0x0E" and q = "port_of []"
      and payload = ?pl and payload' = ?pl' and rest = "[0xF8, 0xF7, 0xF6, 0xF5]"]
  have whole: "read_A (port_of (0xF4 # 0xF3 # 0xF2 # 0xF1 # 0x0E # 0x00 # ?pl' @ [0xF8, 0xF7, 0xF6, 0xF5]))
      = read_A (port_of (0xF4 # 0xF3 # 0xF2 # 0xF1 # 0x0E # 0x00 # ?pl @ [0xF8, 0xF7, 0xF6, 0xF5]))"
    by (simp add: port_of_def)
  have val: "read_A (port_of (0xF4 # 0xF3 # 0xF2 # 0xF1 # 0x0E # 0x00 # ?pl @ [0xF8, 0xF7, 0xF6, 0xF5]))
     = ([\<lparr>Angle_A = 16, Distance_A = 10, Direction_A = 1, Speed_A = 20, SNR_A = 30\<rparr>,
         \<lparr>Angle_A = 115, Distance_A = 242, Direction_A = 241, Speed_A = 8, SNR_A = 0\<rparr>],
        Failed EOF)"
    by code_simp
  let ?ft = "[0xF8, 0xF7, 0xF6, 0xF5 :: byte]"
  let ?r = "\<lparr>buffered = [0xF4, 0xF3, 0xF2, 0xF1, 0x0E, 0x00], incoming = [Bytes (?pl @ ?ft)],
             written = [], wresults = []\<rparr>"
  let ?r1 = "\<lparr>buffered = [0xF3, 0xF2, 0xF1, 0x0E, 0x00], incoming = [Bytes (?pl @ ?ft)],
              written = [], wresults = []\<rparr>"
  let ?r2 = "\<lparr>buffered = [0x0E, 0x00], incoming = [Bytes (?pl @ ?ft)],
              written = [], wresults = []\<rparr>"
  let ?r3 = "\<lparr>buffered = [], incoming = [Bytes (?pl @ ?ft)], written = [], wresults = []\<rparr>"
  let ?r' = "\<lparr>buffered = [0xF4, 0xF3, 0xF2, 0xF1, 0x0E, 0x00], incoming = [Bytes (?pl' @ ?ft)],
              written = [], wresults = []\<rparr>"
  let ?r1' = "\<lparr>buffered = [0xF3, 0xF2, 0xF1, 0x0E, 0x00], incoming = [Bytes (?pl' @ ?ft)],
               written = [], wresults = []\<rparr>"
  let ?r2' = "\<lparr>buffered = [0x0E, 0x00], incoming = [Bytes (?pl' @ ?ft)],
               written = [], wresults = []\<rparr>"
  let ?r3' = "\<lparr>buffered = [], incoming = [Bytes (?pl' @ ?ft)], written = [], wresults = []\<rparr>"
  have s1: "Read_buf ?r 1 = (Inr [0xf4], ?r1)" and s2: "Read_buf ?r1 3 = (Inr [0xf3, 0xf2, 0xf1], ?r2)"
    and s3: "Read_buf ?r2 2 = (Inr [0x0E, 0x00], ?r3)"
    and s5: "Read_buf ?r3 14 = (Inr ?pl, port_of ?ft)"
    by (simp_all add: Read_buf_def port_Read_def port_of_def)
  have t1: "Read_buf ?r' 1 = (Inr [0xf4], ?r1')"
    and t2: "Read_buf ?r1' 3 = (Inr [0xf3, 0xf2, 0xf1], ?r2')"
    and t3: "Read_buf ?r2' 2 = (Inr [0x0E, 0x00], ?r3')"
    and t5: "Read_buf ?r3' 14 = (Inr ?pl', port_of ?ft)"
    by (simp_all add: Read_buf_def port_Read_def port_of_def)
  from agree n s1 s2 s3 s5 t1 t2 t3 t5
    C10_record_byte_0_unread [where buf = ?pl and buf' = ?pl' and p = ?r and ?p1.0 = ?r1
      and ?p2.0 = ?r2 and ?p3.0 = ?r3 and lo = "0x0E" and hi = 0 and ?p4.0 = "port_of ?ft"
      and p' = ?r' and ?p1' = ?r1' and ?p2' = ?r2' and ?p3' = ?r3']
  have late: "read_body_A ?r' = read_body_A ?r"
    by simp
  from whole val late show ?thesis by simp
qed

end
